theory Spec2Isabelle
  imports Complex_Main
begin

text \<open>
  A model of \<^verbatim>\<open>src/node/index.js\<close>, a benchmark script for Node.js and Bun: a table of
  nine timed workloads, a loop that calls each of them twice and prints a row for the
  second call, one asynchronous workload measured once, and a footer with a total.
  The theory follows the script: JavaScript numbers and the string methods the script
  calls, the runner \<^verbatim>\<open>runBenchmarks\<close>, the workloads and the table, then the
  properties of the runner.
\<close>

section \<open>JavaScript numbers\<close>

text \<open>
  A Number is an IEEE 754 binary64 value. \<open>Num s m\<close> is the finite value with sign bit
  \<open>s\<close> (\<open>True\<close> for negative) and magnitude \<open>m\<close>, a non-negative rational that a double
  represents exactly; \<open>Num True 0\<close> is the negative zero. \<open>Infty s\<close> is the infinity of
  sign \<open>s\<close>. Every operation computes the exact rational result and rounds it to the
  nearest double, ties to the even significand (\<open>round_double\<close>): 53 significant bits,
  the exponent of the smallest normal number \<open>2^-1022\<close> for everything below it (the
  subnormals, multiples of \<open>2^-1074\<close>), and infinity from \<open>2^1024\<close> on.
\<close>

datatype jsnum = NaN | Infty bool | Num bool rat

definition two_pow :: "int \<Rightarrow> rat" where
  "two_pow e = (if 0 \<le> e then 2 ^ nat e else 1 / 2 ^ nat (- e))"

definition ten_pow :: "int \<Rightarrow> rat" where
  "ten_pow e = (if 0 \<le> e then 10 ^ nat e else 1 / 10 ^ nat (- e))"

function bit_length :: "nat \<Rightarrow> nat" where
  "bit_length n = (if n = 0 then 0 else Suc (bit_length (n div 2)))"
  by pat_completeness auto
termination
  by (relation "measure id") auto

declare bit_length.simps [simp del]

text \<open>For a positive \<open>x\<close>, \<open>ilog2 x\<close> is the exponent \<open>e\<close> with \<open>2^e \<le> x < 2^(e + 1)\<close>.\<close>

definition ilog2 :: "rat \<Rightarrow> int" where
  "ilog2 x = (if 1 \<le> x then int (bit_length (nat \<lfloor>x\<rfloor>)) - 1
              else let k = int (bit_length (nat \<lfloor>1 / x\<rfloor>)) - 1
                   in if x = two_pow (- k) then - k else - k - 1)"

definition round_half_even :: "rat \<Rightarrow> int" where
  "round_half_even r = (let f = \<lfloor>r\<rfloor>; d = r - of_int f in
     if d < 1 / 2 then f else if 1 / 2 < d then f + 1 else if even f then f else f + 1)"

definition round_double :: "bool \<Rightarrow> rat \<Rightarrow> jsnum" where
  "round_double s x = (if x = 0 then Num s 0 else
     let e = max (ilog2 x) (- 1022);
         q = two_pow (e - 52);
         r = of_int (round_half_even (x / q)) * q
     in if two_pow 1024 \<le> r then Infty s else Num s r)"

text \<open>
  The operators \<^verbatim>\<open>-\<close> (unary), \<^verbatim>\<open>+\<close>, \<^verbatim>\<open>-\<close>, \<^verbatim>\<open>/\<close> and \<^verbatim>\<open>*\<close> on Numbers. A sum that is
  exactly zero is the negative zero only when both operands are negative zeros.
\<close>

fun js_neg :: "jsnum \<Rightarrow> jsnum" where
  "js_neg NaN = NaN"
| "js_neg (Infty s) = Infty (\<not> s)"
| "js_neg (Num s m) = Num (\<not> s) m"

definition signed :: "bool \<Rightarrow> rat \<Rightarrow> rat" where
  "signed s m = (if s then - m else m)"

fun js_add :: "jsnum \<Rightarrow> jsnum \<Rightarrow> jsnum" where
  "js_add NaN b = NaN"
| "js_add (Infty s) NaN = NaN"
| "js_add (Infty s) (Infty t) = (if s = t then Infty s else NaN)"
| "js_add (Infty s) (Num t n) = Infty s"
| "js_add (Num s m) NaN = NaN"
| "js_add (Num s m) (Infty t) = Infty t"
| "js_add (Num s m) (Num t n) =
     (let r = signed s m + signed t n in
      if r = 0 then Num (s \<and> t) 0 else round_double (r < 0) \<bar>r\<bar>)"

definition js_sub :: "jsnum \<Rightarrow> jsnum \<Rightarrow> jsnum" where
  "js_sub a b = js_add a (js_neg b)"

fun js_div :: "jsnum \<Rightarrow> jsnum \<Rightarrow> jsnum" where
  "js_div NaN b = NaN"
| "js_div (Infty s) NaN = NaN"
| "js_div (Infty s) (Infty t) = NaN"
| "js_div (Infty s) (Num t n) = Infty (s \<noteq> t)"
| "js_div (Num s m) NaN = NaN"
| "js_div (Num s m) (Infty t) = Num (s \<noteq> t) 0"
| "js_div (Num s m) (Num t n) =
     (if n = 0 then (if m = 0 then NaN else Infty (s \<noteq> t))
      else round_double (s \<noteq> t) (m / n))"

section \<open>Strings\<close>

text \<open>
  A string is a list of characters; all strings the script builds from are ASCII, but for
  the box-drawing character of the rule lines, which is written as the three bytes of its
  UTF-8 encoding, as the output stream carries it.

  \<open>show_nat\<close> writes a natural number in decimal.
\<close>

definition digit_char :: "nat \<Rightarrow> char" where
  "digit_char d = ''0123456789'' ! d"

function show_nat :: "nat \<Rightarrow> string" where
  "show_nat n = (if n < 10 then [digit_char n] else show_nat (n div 10) @ [digit_char (n mod 10)])"
  by pat_completeness auto
termination
  by (relation "measure id") auto

declare show_nat.simps [simp del]

text \<open>
  \<^verbatim>\<open>Number.prototype.toFixed(f)\<close>, for the digit counts \<open>0\<close> and \<open>2\<close> the script passes.
  A NaN or an infinity is written by name. A finite value of magnitude below \<open>10^21\<close> is
  written in fixed notation: with \<open>n\<close> the integer nearest to \<open>m * 10^f\<close> (the larger one
  of two), the digits of \<open>n\<close>, filled with zeros on the left to \<open>f + 1\<close> digits, with a point
  before the last \<open>f\<close> (\<open>fixed_digits\<close>). A magnitude from \<open>10^21\<close> on is written as
  \<^verbatim>\<open>String(x)\<close> writes it, in exponent notation with the fewest digits that still read
  back as the same double, the nearest such decimal when there are several
  (\<open>shortest_decimal\<close>, which tries 1 to 17 digits; \<open>exponential\<close>). A minus sign comes
  first when the value is below zero.
\<close>

definition strip_zeros :: "string \<Rightarrow> string" where
  "strip_zeros ds = rev (dropWhile (\<lambda>c. c = CHR ''0'') (rev ds))"

fun shortest_decimal :: "nat \<Rightarrow> nat \<Rightarrow> nat \<Rightarrow> nat" where
  "shortest_decimal 0 k X = X"
| "shortest_decimal (Suc fuel) k X =
     (let p = 10 ^ (length (show_nat X) - k);
          lo = (X div p) * p;
          hi = lo + p;
          ok_lo = (round_double False (of_nat lo) = Num False (of_nat X));
          ok_hi = (round_double False (of_nat hi) = Num False (of_nat X))
      in if ok_lo \<and> ok_hi then
           (if X - lo < hi - X then lo else if hi - X < X - lo then hi
            else if even (lo div p) then lo else hi)
         else if ok_lo then lo
         else if ok_hi then hi
         else shortest_decimal fuel (Suc k) X)"

definition exponential :: "rat \<Rightarrow> string" where
  "exponential x =
     (let ds = show_nat (shortest_decimal 17 1 (nat \<lfloor>x\<rfloor>));
          sig = strip_zeros ds
      in (if length sig \<le> 1 then sig else hd sig # CHR ''.'' # tl sig)
         @ ''e+'' @ show_nat (length ds - 1))"

definition fixed_digits :: "nat \<Rightarrow> rat \<Rightarrow> string" where
  "fixed_digits f x =
     (let n = nat \<lfloor>x * 10 ^ f + 1 / 2\<rfloor>;
          m = show_nat n
      in if f = 0 then m
         else let m' = replicate (Suc f - length m) CHR ''0'' @ m;
                  k = length m'
              in take (k - f) m' @ ''.'' @ drop (k - f) m')"

fun toFixed :: "nat \<Rightarrow> jsnum \<Rightarrow> string" where
  "toFixed f NaN = ''NaN''"
| "toFixed f (Infty s) = (if s then ''-Infinity'' else ''Infinity'')"
| "toFixed f (Num s m) =
     (if s \<and> 0 < m then ''-'' else '''') @
     (if 10 ^ 21 \<le> m then exponential m else fixed_digits f m)"

text \<open>
  \<^verbatim>\<open>padStart(n)\<close> and \<^verbatim>\<open>padEnd(n)\<close> with the default filler, a space: a string shorter than
  \<open>n\<close> is extended to \<open>n\<close> characters, any other string is returned as it is.
\<close>

definition padStart :: "nat \<Rightarrow> string \<Rightarrow> string" where
  "padStart n s = replicate (n - length s) CHR '' '' @ s"

definition padEnd :: "nat \<Rightarrow> string \<Rightarrow> string" where
  "padEnd n s = s @ replicate (n - length s) CHR '' ''"

text \<open>
  \<^verbatim>\<open>parseFloat\<close>: leading white space is skipped; then the longest prefix that is a
  decimal literal is read (an optional sign, then \<^verbatim>\<open>Infinity\<close>, or digits with an optional
  point and fraction and an optional exponent) and its value is rounded to a double; when
  there is no such prefix the result is NaN.
\<close>

definition is_digit :: "char \<Rightarrow> bool" where
  "is_digit c = (c \<in> set ''0123456789'')"

definition is_space :: "char \<Rightarrow> bool" where
  "is_space c = (c \<in> set [CHR 0x09, CHR 0x0A, CHR 0x0B, CHR 0x0C, CHR 0x0D, CHR '' ''])"

definition digit_val :: "char \<Rightarrow> nat" where
  "digit_val c = of_char c - 48"

definition digits_val :: "string \<Rightarrow> nat" where
  "digits_val ds = foldl (\<lambda>a c. 10 * a + digit_val c) 0 ds"

definition parse_exponent :: "string \<Rightarrow> int" where
  "parse_exponent s =
     (case s of
        [] \<Rightarrow> 0
      | c # r \<Rightarrow>
          if c = CHR ''e'' \<or> c = CHR ''E'' then
            (let neg = (r \<noteq> [] \<and> hd r = CHR ''-'');
                 r' = (if r \<noteq> [] \<and> (hd r = CHR ''-'' \<or> hd r = CHR ''+'') then tl r else r);
                 ds = takeWhile is_digit r'
             in if ds = [] then 0
                else if neg then - int (digits_val ds) else int (digits_val ds))
          else 0)"

definition parseFloat :: "string \<Rightarrow> jsnum" where
  "parseFloat str =
     (let t = dropWhile is_space str;
          neg = (t \<noteq> [] \<and> hd t = CHR ''-'');
          u = (if t \<noteq> [] \<and> (hd t = CHR ''-'' \<or> hd t = CHR ''+'') then tl t else t)
      in if take 8 u = ''Infinity'' then Infty neg
         else
           let ip = takeWhile is_digit u;
               r1 = dropWhile is_digit u;
               dot = (r1 \<noteq> [] \<and> hd r1 = CHR ''.'');
               fp = (if dot then takeWhile is_digit (tl r1) else []);
               r2 = (if dot then dropWhile is_digit (tl r1) else r1)
           in if ip = [] \<and> fp = [] then NaN
              else round_double neg
                     (of_nat (digits_val (ip @ fp)) * ten_pow (parse_exponent r2 - int (length fp))))"


section \<open>The benchmark runner\<close>

text \<open>
  A thrown value is kept as the text \<^verbatim>\<open>console.error\<close> prints for it. A call that may
  throw returns \<open>Inl\<close> of the thrown value or \<open>Inr\<close> of its result.

  A descriptor of the table \<^verbatim>\<open>tests\<close> has the fields \<^verbatim>\<open>name\<close>, \<^verbatim>\<open>fn\<close> and
  \<^verbatim>\<open>iterations\<close>. The function \<^verbatim>\<open>fn\<close> takes no argument; what it does depends on, and
  changes, the state of the world outside the runner (the clock, the heap), of a type
  \<open>'w\<close> the runner knows nothing about. An entry of the array \<^verbatim>\<open>results\<close> has the fields
  \<^verbatim>\<open>name\<close>, \<^verbatim>\<open>time\<close> and \<^verbatim>\<open>opsPerSec\<close>, the last two being strings.

  The state of the process is the world and the lines written so far to the two output
  streams. The host is the part of the global scope the script inspects: the version of
  \<^verbatim>\<open>Bun\<close> when that global is defined, and \<^verbatim>\<open>process.version\<close>.
\<close>

datatype js_error = Thrown string

record 'w test =
  name :: string
  fn :: "'w \<Rightarrow> (js_error + jsnum) \<times> 'w"
  iterations :: jsnum

record result =
  name :: string
  time :: string
  opsPerSec :: string

record 'w proc =
  world :: 'w
  stdout :: "string list"
  stderr :: "string list"

record host =
  bun_version :: "string option"
  process_version :: string

definition console_log :: "string \<Rightarrow> 'w proc \<Rightarrow> 'w proc" where
  "console_log line p = p\<lparr>stdout := stdout p @ [line]\<rparr>"

definition console_error :: "js_error \<Rightarrow> 'w proc \<Rightarrow> 'w proc" where
  "console_error err p = p\<lparr>stderr := stderr p @ [case err of Thrown msg \<Rightarrow> msg]\<rparr>"

definition call :: "('w \<Rightarrow> (js_error + jsnum) \<times> 'w) \<Rightarrow> 'w proc \<Rightarrow> (js_error + jsnum) \<times> 'w proc" where
  "call f p = (case f (world p) of (r, w) \<Rightarrow> (r, p\<lparr>world := w\<rparr>))"

text \<open>
  The template of a row (lines 215 and 224), with the three interpolated strings before
  padding as arguments, and the expression of the throughput (lines 206 and 224).
\<close>

definition row :: "string \<Rightarrow> string \<Rightarrow> string \<Rightarrow> string" where
  "row nm tm ops =
     padEnd 25 nm @ '' '' @ padStart 10 tm @ '' ms  '' @ padStart 15 ops @ '' ops/sec''"

definition throughput :: "jsnum \<Rightarrow> jsnum \<Rightarrow> string" where
  "throughput count tm = toFixed 0 (js_div count (js_div tm (Num False 1000)))"

text \<open>
  The loop over the table (lines 200 to 217): the warm-up call, whose value is dropped,
  the measured call, the new entry of \<^verbatim>\<open>results\<close> and the row. A call that throws ends
  the loop, and the function, with that error.
\<close>

fun run_tests :: "'w test list \<Rightarrow> result list \<Rightarrow> 'w proc \<Rightarrow> (js_error + result list) \<times> 'w proc" where
  "run_tests [] results p = (Inr results, p)"
| "run_tests (test # rest) results p =
     (case call (fn test) p of
        (Inl err, p1) \<Rightarrow> (Inl err, p1)
      | (Inr warm, p1) \<Rightarrow>
          (case call (fn test) p1 of
             (Inl err, p2) \<Rightarrow> (Inl err, p2)
           | (Inr tm, p2) \<Rightarrow>
               (let ops = throughput (iterations test) tm;
                    results' = results @ [\<lparr>name = test.name test, time = toFixed 2 tm, opsPerSec = ops\<rparr>];
                    p3 = console_log (row (test.name test) (toFixed 2 tm) ops) p2
                in run_tests rest results' p3)))"

text \<open>The header and footer lines (lines 153 to 156 and 227 to 232).\<close>

definition box_char :: string where
  "box_char = [CHR 0xE2, CHR 0x95, CHR 0x90]"

definition String_repeat :: "string \<Rightarrow> nat \<Rightarrow> string" where
  "String_repeat s n = concat (replicate n s)"

definition rule_line :: string where
  "rule_line = String_repeat box_char 60"

definition runtime_name :: "host \<Rightarrow> string" where
  "runtime_name h = (if bun_version h \<noteq> None then ''Bun'' else ''Node.js'')"

definition runtime_version :: "host \<Rightarrow> string" where
  "runtime_version h = (case bun_version h of Some v \<Rightarrow> v | None \<Rightarrow> process_version h)"

definition title_line :: "host \<Rightarrow> string" where
  "title_line h = ''  Performance Stress Test - '' @ runtime_name h @ '' '' @ runtime_version h"

definition total_runtime :: "result list \<Rightarrow> string" where
  "total_runtime results =
     toFixed 2 (foldl (\<lambda>sum r. js_add sum (parseFloat (time r))) (Num False 0) results)"

definition total_line :: "result list \<Rightarrow> string" where
  "total_line results = ''  Total Runtime: '' @ total_runtime results @ '' ms''"

text \<open>
  The body of \<^verbatim>\<open>runBenchmarks\<close>, for any table and any asynchronous workload: the
  header, the loop, the asynchronous workload awaited once, its row, the footer. The
  function is \<^verbatim>\<open>async\<close>: an error thrown inside it rejects the promise it returns
  (\<open>Inl\<close>).
\<close>

definition runBenchmarks_on ::
  "'w test list \<Rightarrow> ('w \<Rightarrow> (js_error + jsnum) \<times> 'w) \<Rightarrow> host \<Rightarrow> 'w proc \<Rightarrow> (js_error + unit) \<times> 'w proc" where
  "runBenchmarks_on tests testAsync h p0 =
     (let p1 = console_log rule_line p0;
          p2 = console_log (title_line h) p1;
          p3 = console_log rule_line p2;
          p4 = console_log [] p3
      in case run_tests tests [] p4 of
           (Inl err, p5) \<Rightarrow> (Inl err, p5)
         | (Inr results, p5) \<Rightarrow>
             (let p6 = console_log [] p5;
                  p7 = console_log ''Running async operations test...'' p6
              in case call testAsync p7 of
                   (Inl err, p8) \<Rightarrow> (Inl err, p8)
                 | (Inr asyncTime, p8) \<Rightarrow>
                     (let p9 = console_log (row ''Async/Promise'' (toFixed 2 asyncTime)
                                              (throughput (Num False 10000) asyncTime)) p8;
                          p10 = console_log [] p9;
                          p11 = console_log rule_line p10;
                          p12 = console_log (total_line results) p11;
                          p13 = console_log rule_line p12
                      in (Inr (), p13))))"

text \<open>
  The last line of the script, \<^verbatim>\<open>runBenchmarks().catch(console.error)\<close>. The handler of
  \<^verbatim>\<open>catch\<close> runs on a rejection and the promise \<^verbatim>\<open>catch\<close> returns is then fulfilled.
  The script sets no exit code: the process ends with status 1 when a rejection is left
  unhandled and with status 0 otherwise.
\<close>

definition promise_catch ::
  "(js_error \<Rightarrow> 'w proc \<Rightarrow> 'w proc) \<Rightarrow> (js_error + unit) \<times> 'w proc \<Rightarrow> (js_error + unit) \<times> 'w proc" where
  "promise_catch handler rp =
     (case rp of (Inl err, p) \<Rightarrow> (Inr (), handler err p) | (Inr v, p) \<Rightarrow> (Inr v, p))"

definition exit_status :: "js_error + unit \<Rightarrow> nat" where
  "exit_status r = (case r of Inl err \<Rightarrow> 1 | Inr v \<Rightarrow> 0)"

definition main_on ::
  "'w test list \<Rightarrow> ('w \<Rightarrow> (js_error + jsnum) \<times> 'w) \<Rightarrow> host \<Rightarrow> 'w proc \<Rightarrow> nat \<times> 'w proc" where
  "main_on tests testAsync h p =
     (case promise_catch console_error (runBenchmarks_on tests testAsync h p) of
        (r, p') \<Rightarrow> (exit_status r, p'))"

section \<open>The workloads and the registry of the program\<close>

text \<open>
  The world of the script's own workloads: the readings \<^verbatim>\<open>performance.now()\<close> returns,
  in the order of the calls, the number of readings taken, and the promise operations
  performed so far (a promise created by the callback of index \<open>i\<close>, a \<^verbatim>\<open>Promise.all\<close> over
  \<open>n\<close> promises, an \<^verbatim>\<open>await\<close>).
\<close>

datatype event = Created nat | Joined nat | Awaited

record world =
  clock :: "nat \<Rightarrow> jsnum"
  reads :: nat
  events :: "event list"

datatype 'a promise = Fulfilled 'a | Rejected js_error

definition performance_now :: "world \<Rightarrow> jsnum \<times> world" where
  "performance_now w = (clock w (reads w), w\<lparr>reads := Suc (reads w)\<rparr>)"

text \<open>
  Each of the nine synchronous workloads takes a reading, runs a loop over data of its
  own, whose results it drops, and returns the difference of a second reading and the
  first. The loop shows in the world only by the time that passes, which the readings
  carry.
\<close>

definition timed_loop :: "world \<Rightarrow> (js_error + jsnum) \<times> world" where
  "timed_loop w0 =
     (let (start, w1) = performance_now w0;
          (stop, w2) = performance_now w1
      in (Inr (js_sub stop start), w2))"

definition testJSONOperations :: "world \<Rightarrow> (js_error + jsnum) \<times> world" where
  "testJSONOperations = timed_loop"

definition testStringOperations :: "world \<Rightarrow> (js_error + jsnum) \<times> world" where
  "testStringOperations = timed_loop"

definition testArrayOperations :: "world \<Rightarrow> (js_error + jsnum) \<times> world" where
  "testArrayOperations = timed_loop"

definition testObjectOperations :: "world \<Rightarrow> (js_error + jsnum) \<times> world" where
  "testObjectOperations = timed_loop"

definition testMathOperations :: "world \<Rightarrow> (js_error + jsnum) \<times> world" where
  "testMathOperations = timed_loop"

definition testRegExpOperations :: "world \<Rightarrow> (js_error + jsnum) \<times> world" where
  "testRegExpOperations = timed_loop"

definition testFunctionCalls :: "world \<Rightarrow> (js_error + jsnum) \<times> world" where
  "testFunctionCalls = timed_loop"

definition testBufferOperations :: "world \<Rightarrow> (js_error + jsnum) \<times> world" where
  "testBufferOperations = timed_loop"

definition testCollectionOperations :: "world \<Rightarrow> (js_error + jsnum) \<times> world" where
  "testCollectionOperations = timed_loop"

text \<open>
  The asynchronous workload (lines 72 to 84): \<^verbatim>\<open>Array.from\<close> calls the callback for the
  indices \<open>0\<close> to \<open>9999\<close> in order, each call creating a promise already resolved with
  \<open>i * 2\<close>; \<^verbatim>\<open>Promise.all\<close> joins them, rejecting with the first rejection if there is
  one; the function waits for the joined promise and takes the second reading.
\<close>

fun js_mul :: "jsnum \<Rightarrow> jsnum \<Rightarrow> jsnum" where
  "js_mul NaN b = NaN"
| "js_mul (Infty s) NaN = NaN"
| "js_mul (Infty s) (Infty t) = Infty (s \<noteq> t)"
| "js_mul (Infty s) (Num t n) = (if n = 0 then NaN else Infty (s \<noteq> t))"
| "js_mul (Num s m) NaN = NaN"
| "js_mul (Num s m) (Infty t) = (if m = 0 then NaN else Infty (s \<noteq> t))"
| "js_mul (Num s m) (Num t n) = round_double (s \<noteq> t) (m * n)"

definition async_callback :: "nat \<Rightarrow> world \<Rightarrow> jsnum promise \<times> world" where
  "async_callback i w =
     (Fulfilled (js_mul (Num False (of_nat i)) (Num False 2)), w\<lparr>events := events w @ [Created i]\<rparr>)"

fun array_from :: "nat list \<Rightarrow> (nat \<Rightarrow> world \<Rightarrow> 'a \<times> world) \<Rightarrow> world \<Rightarrow> 'a list \<times> world" where
  "array_from [] f w = ([], w)"
| "array_from (i # rest) f w =
     (case f i w of (x, w1) \<Rightarrow> (case array_from rest f w1 of (xs, w2) \<Rightarrow> (x # xs, w2)))"

definition Array_from :: "nat \<Rightarrow> (nat \<Rightarrow> world \<Rightarrow> 'a \<times> world) \<Rightarrow> world \<Rightarrow> 'a list \<times> world" where
  "Array_from n f w = array_from [0..<n] f w"

fun join_all :: "'a promise list \<Rightarrow> 'a list promise" where
  "join_all [] = Fulfilled []"
| "join_all (Rejected err # ps) = Rejected err"
| "join_all (Fulfilled v # ps) =
     (case join_all ps of Rejected err \<Rightarrow> Rejected err | Fulfilled vs \<Rightarrow> Fulfilled (v # vs))"

definition Promise_all :: "'a promise list \<Rightarrow> world \<Rightarrow> 'a list promise \<times> world" where
  "Promise_all ps w = (join_all ps, w\<lparr>events := events w @ [Joined (length ps)]\<rparr>)"

definition await :: "'a promise \<Rightarrow> world \<Rightarrow> (js_error + 'a) \<times> world" where
  "await pr w =
     ((case pr of Fulfilled v \<Rightarrow> Inr v | Rejected err \<Rightarrow> Inl err), w\<lparr>events := events w @ [Awaited]\<rparr>)"

definition testAsyncOperations :: "world \<Rightarrow> (js_error + jsnum) \<times> world" where
  "testAsyncOperations w0 =
     (case performance_now w0 of (start, w1) \<Rightarrow>
      case Array_from 10000 async_callback w1 of (promises, w2) \<Rightarrow>
      case Promise_all promises w2 of (joined, w3) \<Rightarrow>
      case await joined w3 of
        (Inl err, w4) \<Rightarrow> (Inl err, w4)
      | (Inr vs, w4) \<Rightarrow>
          (case performance_now w4 of (stop, w5) \<Rightarrow> (Inr (js_sub stop start), w5)))"

definition ITERATIONS :: jsnum where
  "ITERATIONS = Num False 1000000"

definition FILE_SIZE :: jsnum where
  "FILE_SIZE = Num False 10000"

definition tests :: "world test list" where
  "tests =
     [\<lparr>test.name = ''JSON Stringify/Parse'', fn = testJSONOperations, iterations = ITERATIONS\<rparr>,
      \<lparr>test.name = ''String Manipulation'', fn = testStringOperations,
        iterations = js_div ITERATIONS (Num False 10)\<rparr>,
      \<lparr>test.name = ''Array Operations'', fn = testArrayOperations,
        iterations = js_div ITERATIONS (Num False 100)\<rparr>,
      \<lparr>test.name = ''Object Creation'', fn = testObjectOperations, iterations = ITERATIONS\<rparr>,
      \<lparr>test.name = ''Math Operations'', fn = testMathOperations, iterations = ITERATIONS\<rparr>,
      \<lparr>test.name = ''RegExp Operations'', fn = testRegExpOperations,
        iterations = js_div ITERATIONS (Num False 10)\<rparr>,
      \<lparr>test.name = ''Function Calls'', fn = testFunctionCalls, iterations = ITERATIONS\<rparr>,
      \<lparr>test.name = ''Buffer/TypedArray'', fn = testBufferOperations,
        iterations = js_div ITERATIONS (Num False 100)\<rparr>,
      \<lparr>test.name = ''Set/Map Operations'', fn = testCollectionOperations,
        iterations = js_div ITERATIONS (Num False 100)\<rparr>]"

definition runBenchmarks :: "host \<Rightarrow> world proc \<Rightarrow> (js_error + unit) \<times> world proc" where
  "runBenchmarks = runBenchmarks_on tests testAsyncOperations"

definition main :: "host \<Rightarrow> world proc \<Rightarrow> nat \<times> world proc" where
  "main = main_on tests testAsyncOperations"

section \<open>Measurements and call logs\<close>

text \<open>
  The calls the loop makes, seen from the world alone: \<open>measurements ts w\<close> calls each
  operation twice, in the order of \<open>ts\<close>, and returns the values of the second calls of the
  descriptors completed, the error of the first call that failed, if any, and the world
  left behind. \<open>result_of\<close> and \<open>row_of\<close> are the entry and the row the loop makes of a
  descriptor and its measured time.
\<close>

fun measurements :: "'w test list \<Rightarrow> 'w \<Rightarrow> jsnum list \<times> js_error option \<times> 'w" where
  "measurements [] w = ([], None, w)"
| "measurements (t # ts) w =
     (case fn t w of
        (Inl err, w1) \<Rightarrow> ([], Some err, w1)
      | (Inr warm, w1) \<Rightarrow>
          (case fn t w1 of
             (Inl err, w2) \<Rightarrow> ([], Some err, w2)
           | (Inr tm, w2) \<Rightarrow>
               (case measurements ts w2 of (tms, r, w3) \<Rightarrow> (tm # tms, r, w3))))"

definition result_of :: "'w test \<Rightarrow> jsnum \<Rightarrow> result" where
  "result_of t tm =
     \<lparr>name = test.name t, time = toFixed 2 tm,
      opsPerSec = toFixed 0 (js_div (iterations t) (js_div tm (Num False 1000)))\<rparr>"

definition row_of :: "'w test \<Rightarrow> jsnum \<Rightarrow> string" where
  "row_of t tm =
     row (test.name t) (toFixed 2 tm) (toFixed 0 (js_div (iterations t) (js_div tm (Num False 1000))))"

text \<open>
  An operation that records its calls: \<open>logged nm f\<close> does what \<open>f\<close> does and adds \<open>nm\<close> to
  a list of names kept in the world.
\<close>

definition logged ::
  "string \<Rightarrow> ('w \<Rightarrow> (js_error + jsnum) \<times> 'w) \<Rightarrow> string list \<times> 'w \<Rightarrow> (js_error + jsnum) \<times> string list \<times> 'w" where
  "logged nm f = (\<lambda>(calls, w). case f w of (r, w') \<Rightarrow> (r, calls @ [nm], w'))"

definition logged_test :: "'w test \<Rightarrow> (string list \<times> 'w) test" where
  "logged_test t = \<lparr>test.name = test.name t, fn = logged (test.name t) (fn t), iterations = iterations t\<rparr>"

text \<open>The four header lines, the row of the asynchronous workload and the footer total.\<close>

definition report_head :: "host \<Rightarrow> string list" where
  "report_head h = [rule_line, title_line h, rule_line, []]"

definition async_row :: "jsnum \<Rightarrow> string" where
  "async_row tm =
     row ''Async/Promise'' (toFixed 2 tm) (toFixed 0 (js_div (Num False 10000) (js_div tm (Num False 1000))))"

definition footer_total :: "string list \<Rightarrow> string" where
  "footer_total out = last (butlast out)"

text \<open>
  Rounding to the nearest integer, halves upwards, the characters of a number written in
  decimal or exponent notation, and the three texts of a value that is not finite.
\<close>

definition round_half_up :: "rat \<Rightarrow> int" where
  "round_half_up q = \<lfloor>q + 1 / 2\<rfloor>"

definition number_char :: "char \<Rightarrow> bool" where
  "number_char c = (is_digit c \<or> c = CHR ''.'' \<or> c = CHR ''e'' \<or> c = CHR ''+'' \<or> c = CHR ''-'')"

definition non_finite_text :: "string \<Rightarrow> bool" where
  "non_finite_text s = (s = ''NaN'' \<or> s = ''Infinity'' \<or> s = ''-Infinity'')"

section \<open>Example runs\<close>

text \<open>
  Operations over a world that counts the calls made: one returning a fixed time, one
  failing, one whose first call is slower than the later ones; small tables of them, two
  hosts, and the reports the runs of these tables print.
\<close>

definition fixed_op :: "jsnum \<Rightarrow> nat \<Rightarrow> (js_error + jsnum) \<times> nat" where
  "fixed_op tm n = (Inr tm, Suc n)"

definition failing_op :: "string \<Rightarrow> nat \<Rightarrow> (js_error + jsnum) \<times> nat" where
  "failing_op msg n = (Inl (Thrown msg), Suc n)"

definition node_host :: host where
  "node_host = \<lparr>bun_version = None, process_version = ''v22.0.0''\<rparr>"

definition bun_host :: host where
  "bun_host = \<lparr>bun_version = Some ''1.1.0'', process_version = ''v22.0.0''\<rparr>"

definition fresh :: "nat proc" where
  "fresh = \<lparr>world = 0, stdout = [], stderr = []\<rparr>"

definition two_tests :: "nat test list" where
  "two_tests =
     [\<lparr>test.name = ''first'', fn = fixed_op (Num False 500), iterations = Num False 1000\<rparr>,
      \<lparr>test.name = ''second'', fn = fixed_op (Num False 2000), iterations = Num False 100\<rparr>]"

definition two_tests_done :: "host \<Rightarrow> nat proc" where
  "two_tests_done h =
     \<lparr>world = 5,
      stdout = report_head h @
        [''first                         500.00 ms             2000 ops/sec'',
         ''second                       2000.00 ms               50 ops/sec'',
         [], ''Running async operations test...'',
         ''Async/Promise                 250.00 ms            40000 ops/sec'',
         [], rule_line, ''  Total Runtime: 2500.00 ms'', rule_line],
      stderr = []\<rparr>"

definition two_tests_results :: "result list" where
  "two_tests_results =
     [\<lparr>name = ''first'', time = ''500.00'', opsPerSec = ''2000''\<rparr>,
      \<lparr>name = ''second'', time = ''2000.00'', opsPerSec = ''50''\<rparr>]"

definition two_tests_after_loop :: "nat proc" where
  "two_tests_after_loop =
     \<lparr>world = 4,
      stdout =
        [''first                         500.00 ms             2000 ops/sec'',
         ''second                       2000.00 ms               50 ops/sec''],
      stderr = []\<rparr>"

definition two_tests_report :: "string \<Rightarrow> host \<Rightarrow> nat proc" where
  "two_tests_report async_line h =
     \<lparr>world = 5,
      stdout = report_head h @
        [''first                         500.00 ms             2000 ops/sec'',
         ''second                       2000.00 ms               50 ops/sec'',
         [], ''Running async operations test...'',
         async_line,
         [], rule_line, ''  Total Runtime: 2500.00 ms'', rule_line],
      stderr = []\<rparr>"

definition tiny_tests :: "nat test list" where
  "tiny_tests =
     [\<lparr>test.name = ''a'', fn = fixed_op (Num False (1 / 256)), iterations = Num False 1000\<rparr>,
      \<lparr>test.name = ''b'', fn = fixed_op (Num False (1 / 256)), iterations = Num False 1000\<rparr>]"

definition warming_op :: "nat \<Rightarrow> (js_error + jsnum) \<times> nat" where
  "warming_op n = (Inr (if n = 0 then Num False 2000 else Num False 500), Suc n)"

definition warming_test :: "nat test" where
  "warming_test = \<lparr>test.name = ''first'', fn = warming_op, iterations = Num False 1000\<rparr>"

definition boom_tests :: "nat test list" where
  "boom_tests =
     [\<lparr>test.name = ''boom'', fn = failing_op ''Error: boom'', iterations = Num False 1000\<rparr>,
      \<lparr>test.name = ''after'', fn = fixed_op (Num False 500), iterations = Num False 1000\<rparr>]"

definition zero_tests :: "nat test list" where
  "zero_tests = [\<lparr>test.name = ''zero'', fn = fixed_op (Num False 0), iterations = Num False 0\<rparr>]"


section \<open>Auxiliary facts\<close>

lemma call_world: "call f p = (fst (f (world p)), p\<lparr>world := snd (f (world p))\<rparr>)"
  by (simp add: call_def split: prod.split)

lemma run_tests_measurements:
  "run_tests ts rs p =
     (case measurements ts (world p) of
        (tms, r, w) \<Rightarrow>
          ((case r of Some err \<Rightarrow> Inl err | None \<Rightarrow> Inr (rs @ map2 result_of ts tms)),
           p\<lparr>world := w, stdout := stdout p @ map2 row_of ts tms\<rparr>))"
proof (induction ts arbitrary: rs p)
  case Nil
  show ?case by simp
next
  case (Cons t ts)
  show ?case
    by (simp add: call_def Cons.IH console_log_def result_of_def row_of_def throughput_def Let_def
        split: prod.split sum.split option.split)
qed

lemma measurements_length: "measurements ts w = (tms, r, w') \<Longrightarrow> length tms \<le> length ts"
  by (induction ts arbitrary: w tms) (auto split: prod.splits sum.splits)

lemma measurements_complete:
  "measurements ts w = (tms, None, w') \<Longrightarrow> length tms = length ts"
  by (induction ts arbitrary: w tms) (auto split: prod.splits sum.splits)

lemma measurements_failed:
  "measurements ts w = (tms, Some err, w') \<Longrightarrow> length tms < length ts"
  by (induction ts arbitrary: w tms) (auto split: prod.splits sum.splits)

lemma runBenchmarks_on_sync_failure:
  assumes "measurements ts (world p) = (tms, Some err, w)"
  shows "runBenchmarks_on ts a h p =
           (Inl err, p\<lparr>world := w, stdout := stdout p @ report_head h @ map2 row_of ts tms\<rparr>)"
  using assms
  by (simp add: runBenchmarks_on_def run_tests_measurements console_log_def report_head_def)

lemma runBenchmarks_on_async_failure:
  assumes "measurements ts (world p) = (tms, None, w)" and "a w = (Inl err, w')"
  shows "runBenchmarks_on ts a h p =
           (Inl err, p\<lparr>world := w', stdout := stdout p @ report_head h @ map2 row_of ts tms
               @ [[], ''Running async operations test...'']\<rparr>)"
  using assms
  by (simp add: runBenchmarks_on_def run_tests_measurements console_log_def report_head_def call_def)

lemma runBenchmarks_on_success:
  assumes "measurements ts (world p) = (tms, None, w)" and "a w = (Inr atm, w')"
  shows "runBenchmarks_on ts a h p =
           (Inr (), p\<lparr>world := w', stdout := stdout p @ report_head h @ map2 row_of ts tms
               @ [[], ''Running async operations test...'',
                  async_row atm,
                  [], rule_line, total_line (map2 result_of ts tms), rule_line]\<rparr>)"
  using assms
  by (simp add: runBenchmarks_on_def run_tests_measurements console_log_def report_head_def call_def throughput_def async_row_def)


subsection \<open>Evaluation on numerals\<close>

lemma floor_rat_numeral: "\<lfloor>(numeral a :: rat) / numeral b\<rfloor> = numeral a div numeral b"
  using floor_divide_of_int_eq [of "numeral a" "numeral b", where ?'a = rat] by simp

lemma floor_rat_one_numeral: "\<lfloor>(1 :: rat) / numeral b\<rfloor> = 1 div numeral b"
  using floor_divide_of_int_eq [of 1 "numeral b", where ?'a = rat] by simp

lemma show_nat_numeral:
  "show_nat (numeral k) = (if (numeral k :: nat) < 10 then [digit_char (numeral k)]
     else show_nat (numeral k div 10) @ [digit_char (numeral k mod 10)])"
  "show_nat 0 = ''0''"
  "show_nat (Suc 0) = ''1''"
  by (subst show_nat.simps, simp add: digit_char_def)+

lemma bit_length_numeral:
  "bit_length (numeral k) = Suc (bit_length (numeral k div 2))"
  "bit_length 0 = 0"
  "bit_length (Suc 0) = 1"
  by (subst bit_length.simps, simp add: bit_length.simps)+

lemma replicate_numeral: "replicate (numeral k) x = x # replicate (pred_numeral k) x"
  by (simp add: numeral_eq_Suc)

lemmas num_ev = round_double_def ilog2_def two_pow_def ten_pow_def round_half_even_def Let_def
  bit_length_numeral floor_rat_numeral floor_rat_one_numeral signed_def js_sub_def

lemmas str_ev = show_nat_numeral digit_char_def fixed_digits_def padStart_def padEnd_def row_def
  is_digit_def is_space_def digit_val_def digits_val_def parse_exponent_def parseFloat_def
  replicate_numeral

lemma two_tests_measurements:
  "measurements two_tests n = ([Num False 500, Num False 2000], None, n + 4)"
  by (simp add: two_tests_def fixed_op_def)

lemma two_tests_rows:
  "map2 row_of two_tests [Num False 500, Num False 2000] =
     [''first                         500.00 ms             2000 ops/sec'',
      ''second                       2000.00 ms               50 ops/sec'']"
  by (simp add: two_tests_def row_of_def num_ev str_ev)

lemma async_row_250:
  "async_row (Num False 250) = ''Async/Promise                 250.00 ms            40000 ops/sec''"
  by (simp add: async_row_def num_ev str_ev)

lemma two_tests_total:
  "total_line (map2 result_of two_tests [Num False 500, Num False 2000]) = ''  Total Runtime: 2500.00 ms''"
  by (simp add: two_tests_def result_of_def total_line_def total_runtime_def num_ev str_ev)

lemma two_tests_run:
  "runBenchmarks_on two_tests (fixed_op (Num False 250)) h fresh = (Inr (), two_tests_done h)"
proof -
  have m: "measurements two_tests (world fresh) = ([Num False 500, Num False 2000], None, 4)"
    by (simp add: two_tests_measurements fresh_def)
  have a: "fixed_op (Num False 250) 4 = (Inr (Num False 250), 5)"
    by (simp add: fixed_op_def)
  show ?thesis
    using runBenchmarks_on_success [of two_tests fresh _ 4 "fixed_op (Num False 250)" _ 5 h, OF m a]
    by (simp add: two_tests_rows async_row_250 two_tests_total fresh_def two_tests_done_def)
qed

lemma runBenchmarks_on_shape:
  "\<exists>r w rest. \<forall>h. runBenchmarks_on ts a h p =
      (r, p\<lparr>world := w, stdout := stdout p @ report_head h @ rest\<rparr>)"
proof -
  obtain tms r w where m: "measurements ts (world p) = (tms, r, w)"
    by (cases "measurements ts (world p)") auto
  show ?thesis
  proof (cases r)
    case (Some err)
    with m show ?thesis
      using runBenchmarks_on_sync_failure [of ts p tms err w a] by blast
  next
    case None
    obtain ra w' where a: "a w = (ra, w')"
      by (cases "a w") auto
    show ?thesis
    proof (cases ra)
      case (Inl err)
      with m None a show ?thesis
        using runBenchmarks_on_async_failure [of ts p tms w a err w'] by blast
    next
      case (Inr atm)
      with m None a show ?thesis
        using runBenchmarks_on_success [of ts p tms w a atm w'] by blast
    qed
  qed
qed

lemma two_tests_results_eq:
  "map2 result_of two_tests [Num False 500, Num False 2000] = two_tests_results"
  by (simp add: two_tests_def result_of_def two_tests_results_def num_ev str_ev)

lemma two_tests_loop:
  "run_tests two_tests [] fresh = (Inr two_tests_results, two_tests_after_loop)"
  by (simp add: run_tests_measurements fresh_def two_tests_measurements two_tests_rows
      two_tests_results_eq two_tests_after_loop_def)

subsection \<open>Decimal numerals\<close>

lemma digit_val_digit_char: "d < 10 \<Longrightarrow> digit_val (digit_char d) = d"
proof -
  assume "d < 10"
  then have "d \<in> {0, 1, 2, 3, 4, 5, 6, 7, 8, 9}"
    by auto
  then show ?thesis
    by (auto simp: digit_val_def digit_char_def)
qed

lemma digits_val_snoc: "digits_val (ds @ [c]) = 10 * digits_val ds + digit_val c"
  by (simp add: digits_val_def)

lemma digits_val_show_nat: "digits_val (show_nat n) = n"
proof (induction n rule: show_nat.induct)
  case (1 n)
  show ?case
  proof (cases "n < 10")
    case True
    then show ?thesis
      by (subst show_nat.simps) (simp add: digits_val_def digit_val_digit_char)
  next
    case False
    with "1" show ?thesis
      by (subst show_nat.simps) (simp add: digits_val_snoc digit_val_digit_char)
  qed
qed

lemma toFixed_0_rounds:
  "0 \<le> q \<Longrightarrow> q < 10 ^ 21 \<Longrightarrow> toFixed 0 (Num False q) = show_nat (nat (round_half_up q))"
  by (simp add: fixed_digits_def round_half_up_def)

lemma round_double_cases: "round_double s x = Infty s \<or> (\<exists>r. round_double s x = Num s r)"
  by (simp add: round_double_def Let_def)

lemma round_half_even_nonneg: "0 \<le> x \<Longrightarrow> 0 \<le> round_half_even x"
  by (simp add: round_half_even_def Let_def)

lemma round_double_nonneg: "0 \<le> x \<Longrightarrow> round_double s x = Num s r \<Longrightarrow> 0 \<le> r"
  by (auto simp: round_double_def Let_def two_pow_def round_half_even_nonneg split: if_splits)

lemma positive_quotient_cases:
  assumes "0 < l" and "0 < e"
  shows "js_div (Num False l) (js_div (Num False e) (Num False 1000)) = Infty False \<or>
         (\<exists>q. js_div (Num False l) (js_div (Num False e) (Num False 1000)) = Num False q \<and> 0 \<le> q)"
proof -
  from round_double_cases [of False "e / 1000"] show ?thesis
  proof (elim disjE exE)
    assume inf: "round_double False (e / 1000) = Infty False"
    have "js_div (Num False l) (js_div (Num False e) (Num False 1000)) = Num False 0"
      by (simp add: inf)
    then show ?thesis
      by blast
  next
    fix r
    assume fin: "round_double False (e / 1000) = Num False r"
    have r: "0 \<le> r"
      by (rule round_double_nonneg [OF _ fin]) (use assms in simp)
    show ?thesis
    proof (cases "r = 0")
      case True
      have "js_div (Num False l) (js_div (Num False e) (Num False 1000)) = Infty False"
        using assms by (simp add: fin True)
      then show ?thesis
        by blast
    next
      case False
      have q: "js_div (Num False l) (js_div (Num False e) (Num False 1000))
                 = round_double False (l / r)"
        by (simp add: fin False)
      have nn: "0 \<le> l / r"
        using assms r by simp
      from round_double_cases [of False "l / r"] show ?thesis
        unfolding q using round_double_nonneg [OF nn] by blast
    qed
  qed
qed

lemma two_tests_run_async:
  "runBenchmarks_on two_tests (fixed_op atm) h fresh = (Inr (), two_tests_report (async_row atm) h)"
proof -
  have m: "measurements two_tests (world fresh) = ([Num False 500, Num False 2000], None, 4)"
    by (simp add: two_tests_measurements fresh_def)
  have a: "fixed_op atm 4 = (Inr atm, 5)"
    by (simp add: fixed_op_def)
  show ?thesis
    using runBenchmarks_on_success [of two_tests fresh _ 4 "fixed_op atm" _ 5 h, OF m a]
    by (simp add: two_tests_rows two_tests_total fresh_def two_tests_report_def)
qed

lemma async_row_2000:
  "async_row (Num False 2000) = ''Async/Promise                2000.00 ms             5000 ops/sec''"
  by (simp add: async_row_def num_ev str_ev)

subsection \<open>The footer\<close>

lemma map_time_results:
  "length tms = length ts \<Longrightarrow> map time (map2 result_of ts tms) = map (toFixed 2) tms"
  by (induction tms ts rule: list_induct2) (simp_all add: result_of_def)

lemma map_opsPerSec_results:
  "map opsPerSec (map2 result_of ts tms) =
     map2 (\<lambda>t tm. toFixed 0 (js_div (iterations t) (js_div tm (Num False 1000)))) ts tms"
  by (auto simp: result_of_def)

lemma total_runtime_times:
  "total_runtime rs = toFixed 2 (foldl (\<lambda>sum s. js_add sum (parseFloat s)) (Num False 0) (map time rs))"
  by (simp add: total_runtime_def foldl_map)

lemma total_runtime_displayed:
  "length tms = length ts \<Longrightarrow>
   total_runtime (map2 result_of ts tms) =
     toFixed 2 (foldl (\<lambda>sum s. js_add sum (parseFloat s)) (Num False 0) (map (toFixed 2) tms))"
  by (simp only: total_runtime_times map_time_results)

lemma footer_total_snoc2: "footer_total (xs @ [a, b]) = a"
  by (simp add: footer_total_def butlast_append)

lemma footer_total_success:
  assumes "measurements ts (world p) = (tms, None, w)" and "a w = (Inr atm, w')"
  shows "footer_total (stdout (snd (runBenchmarks_on ts a h p))) = total_line (map2 result_of ts tms)"
proof -
  have "stdout (snd (runBenchmarks_on ts a h p)) =
      (stdout p @ report_head h @ map2 row_of ts tms
        @ [[], ''Running async operations test...'', async_row atm, [], rule_line])
      @ [total_line (map2 result_of ts tms), rule_line]"
    by (simp add: runBenchmarks_on_success [where a = a, OF assms])
  then show ?thesis
    by (simp only: footer_total_snoc2)
qed

lemma completed_run:
  assumes "runBenchmarks_on ts a h p = (Inr (), p')"
  obtains tms w atm where "measurements ts (world p) = (tms, None, w)"
    and "a w = (Inr atm, world p')" and "length tms = length ts"
    and "p' = p\<lparr>world := world p', stdout := stdout p @ report_head h @ map2 row_of ts tms
               @ [[], ''Running async operations test...'', async_row atm,
                  [], rule_line, total_line (map2 result_of ts tms), rule_line]\<rparr>"
proof -
  obtain tms r w where m: "measurements ts (world p) = (tms, r, w)"
    by (cases "measurements ts (world p)") auto
  have r: "r = None"
  proof (cases r)
    case (Some err)
    with m assms show ?thesis
      by (simp add: runBenchmarks_on_sync_failure [of ts p tms err w a])
  qed simp
  obtain ra w' where a: "a w = (ra, w')"
    by (cases "a w") auto
  obtain atm where ra: "ra = Inr atm"
  proof (cases ra)
    case (Inl err)
    with m r a assms show ?thesis
      by (simp add: runBenchmarks_on_async_failure [of ts p tms w a err w'])
  qed simp
  have len: "length tms = length ts"
    using m r by (simp add: measurements_complete)
  have p': "p' = p\<lparr>world := w', stdout := stdout p @ report_head h @ map2 row_of ts tms
               @ [[], ''Running async operations test...'', async_row atm,
                  [], rule_line, total_line (map2 result_of ts tms), rule_line]\<rparr>"
    using assms m r a ra by (simp add: runBenchmarks_on_success [of ts p tms w a atm w'])
  then have "world p' = w'"
    by simp
  with m r a ra len p' that show thesis
    by simp
qed

lemma tiny_tests_measurements:
  "measurements tiny_tests n = ([Num False (1 / 256), Num False (1 / 256)], None, n + 4)"
  by (simp add: tiny_tests_def fixed_op_def)

lemma toFixed_2_tiny: "toFixed 2 (Num False (1 / 256)) = ''0.00''"
  by (simp add: num_ev str_ev)

lemma parseFloat_zero: "parseFloat ''0.00'' = Num False 0"
  by (simp add: num_ev str_ev)

lemma toFixed_2_zero: "toFixed 2 (Num False 0) = ''0.00''"
  by (simp add: num_ev str_ev)

lemma toFixed_2_tiny_sum: "toFixed 2 (Num False (1 / 128)) = ''0.01''"
  by (simp add: num_ev str_ev)

lemma js_add_tiny: "js_add (js_add (Num False 0) (Num False (1 / 256))) (Num False (1 / 256)) = Num False (1 / 128)"
  by (simp add: num_ev)

subsection \<open>Call logs\<close>

lemma fn_logged_test:
  "fn (logged_test t) (calls, w) = (fst (fn t w), calls @ [test.name t], snd (fn t w))"
  by (simp add: logged_test_def logged_def split: prod.split)

lemma logged_calls_complete:
  "measurements (map logged_test ts) lw = (tms, None, lw') \<Longrightarrow>
   fst lw' = fst lw @ concat (map (\<lambda>t. [test.name t, test.name t]) ts)"
proof (induction ts arbitrary: lw tms)
  case Nil
  then show ?case by simp
next
  case (Cons t ts)
  obtain calls w where lw: "lw = (calls, w)"
    by (cases lw)
  obtain r1 w1 where c1: "fn t w = (r1, w1)"
    by (cases "fn t w")
  obtain r2 w2 where c2: "fn t w1 = (r2, w2)"
    by (cases "fn t w1")
  from Cons.prems obtain warm where r1: "r1 = Inr warm"
    by (cases r1) (simp_all add: lw fn_logged_test c1)
  from Cons.prems obtain tm where r2: "r2 = Inr tm"
    by (cases r2) (simp_all add: lw fn_logged_test c1 r1 c2)
  from Cons.prems obtain tms' where
    rest: "measurements (map logged_test ts) (calls @ [test.name t, test.name t], w2) = (tms', None, lw')"
    by (auto simp: lw fn_logged_test c1 r1 c2 r2 split: prod.splits)
  from Cons.IH [OF rest] show ?case
    by (simp add: lw)
qed

lemma logged_calls_failed:
  "measurements (map logged_test ts) lw = (tms, Some err, lw') \<Longrightarrow>
   \<exists>k. (k = 1 \<or> k = 2) \<and>
     fst lw' = fst lw @ concat (map (\<lambda>t. [test.name t, test.name t]) (take (length tms) ts))
       @ replicate k (test.name (ts ! length tms))"
proof (induction ts arbitrary: lw tms)
  case Nil
  then show ?case by simp
next
  case (Cons t ts)
  obtain calls w where lw: "lw = (calls, w)"
    by (cases lw)
  obtain r1 w1 where c1: "fn t w = (r1, w1)"
    by (cases "fn t w")
  obtain r2 w2 where c2: "fn t w1 = (r2, w2)"
    by (cases "fn t w1")
  show ?case
  proof (cases r1)
    case (Inl e)
    with Cons.prems have "tms = []" "lw' = (calls @ [test.name t], w1)"
      by (simp_all add: lw fn_logged_test c1)
    then show ?thesis
      by (intro exI [of _ 1]) (simp add: lw)
  next
    case warm: (Inr warm)
    show ?thesis
    proof (cases r2)
      case (Inl e)
      with Cons.prems warm have "tms = []" "lw' = (calls @ [test.name t, test.name t], w2)"
        by (simp_all add: lw fn_logged_test c1 c2)
      then show ?thesis
        by (intro exI [of _ 2]) (simp add: lw numeral_2_eq_2)
    next
      case (Inr tm)
      with Cons.prems warm obtain tms' where tms: "tms = tm # tms'" and
        rest: "measurements (map logged_test ts) (calls @ [test.name t, test.name t], w2) = (tms', Some err, lw')"
        by (auto simp: lw fn_logged_test c1 c2 split: prod.splits)
      from Cons.IH [OF rest] show ?thesis
        by (simp add: lw tms)
    qed
  qed
qed

lemma row_of_logged_test [simp]: "row_of (logged_test t) tm = row_of t tm"
  by (simp add: row_of_def logged_test_def)

lemma result_of_logged_test [simp]: "result_of (logged_test t) tm = result_of t tm"
  by (simp add: result_of_def logged_test_def)

lemma map2_row_of_logged: "map2 row_of (map logged_test ts) tms = map2 row_of ts tms"
  by (auto simp: zip_map1)

lemma map2_result_of_logged: "map2 result_of (map logged_test ts) tms = map2 result_of ts tms"
  by (auto simp: zip_map1)

lemma measurements_logged_complete:
  "measurements ts w = (tms, None, w') \<Longrightarrow>
   measurements (map logged_test ts) (calls, w) =
     (tms, None, calls @ concat (map (\<lambda>t. [test.name t, test.name t]) ts), w')"
proof (induction ts arbitrary: w tms calls)
  case Nil
  then show ?case by simp
next
  case (Cons t ts)
  obtain r1 w1 where c1: "fn t w = (r1, w1)"
    by (cases "fn t w")
  obtain r2 w2 where c2: "fn t w1 = (r2, w2)"
    by (cases "fn t w1")
  from Cons.prems obtain warm where r1: "r1 = Inr warm"
    by (cases r1) (simp_all add: c1)
  from Cons.prems obtain tm where r2: "r2 = Inr tm"
    by (cases r2) (simp_all add: c1 r1 c2)
  from Cons.prems obtain tms' where tms: "tms = tm # tms'"
    and rest: "measurements ts w2 = (tms', None, w')"
    by (auto simp: c1 r1 c2 r2 split: prod.splits)
  from Cons.IH [OF rest, of "calls @ [test.name t, test.name t]"] show ?case
    by (simp add: fn_logged_test c1 r1 c2 r2 tms)
qed

lemma toFixed_2_500: "toFixed 2 (Num False 500) = ''500.00''"
  by (simp add: num_ev str_ev)

lemma throughput_1000_500:
  "toFixed 0 (js_div (Num False 1000) (js_div (Num False 500) (Num False 1000))) = ''2000''"
  by (simp add: num_ev str_ev)

lemma row_first:
  "row ''first'' ''500.00'' ''2000'' = ''first                         500.00 ms             2000 ops/sec''"
  by (simp add: str_ev)

lemma two_tests_logged_loop:
  "run_tests (map logged_test two_tests) [] \<lparr>world = ([], 0), stdout = [], stderr = []\<rparr> =
     (Inr two_tests_results,
      \<lparr>world = ([''first'', ''first'', ''second'', ''second''], 4),
       stdout = stdout two_tests_after_loop, stderr = []\<rparr>)"
proof -
  have "measurements two_tests 0 = ([Num False 500, Num False 2000], None, 4)"
    by (simp add: two_tests_measurements)
  from measurements_logged_complete [OF this, of "[]"]
  have "measurements (map logged_test two_tests) ([], 0) =
      ([Num False 500, Num False 2000], None, [''first'', ''first'', ''second'', ''second''], 4)"
    by (simp add: two_tests_def)
  then show ?thesis
    by (simp add: run_tests_measurements map2_row_of_logged map2_result_of_logged two_tests_rows
        two_tests_results_eq two_tests_after_loop_def)
qed

subsection \<open>The asynchronous workload\<close>

lemma array_from_async_callback:
  "array_from js async_callback w =
     (map (\<lambda>i. Fulfilled (js_mul (Num False (of_nat i)) (Num False 2))) js,
      w\<lparr>events := events w @ map Created js\<rparr>)"
  by (induction js arbitrary: w) (simp_all add: async_callback_def)

lemma join_all_fulfilled: "join_all (map (\<lambda>x. Fulfilled (f x)) xs) = Fulfilled (map f xs)"
  by (induction xs) simp_all

lemma async_batch:
  "(case Array_from n async_callback w1 of (promises, w2) \<Rightarrow>
      case Promise_all promises w2 of (joined, w3) \<Rightarrow> await joined w3) =
     (Inr (map (\<lambda>i. js_mul (Num False (of_nat i)) (Num False 2)) [0..<n]),
      w1\<lparr>events := events w1 @ map Created [0..<n] @ [Joined n, Awaited]\<rparr>)"
  by (simp add: Array_from_def array_from_async_callback Promise_all_def join_all_fulfilled await_def)

lemma testAsyncOperations_run:
  "testAsyncOperations w =
     (Inr (js_sub (clock w (Suc (reads w))) (clock w (reads w))),
      w\<lparr>reads := Suc (Suc (reads w)),
        events := events w @ map Created [0..<10000] @ [Joined 10000, Awaited]\<rparr>)"
proof -
  obtain start w1 where now: "performance_now w = (start, w1)"
    by (cases "performance_now w")
  then have start: "start = clock w (reads w)" and w1: "w1 = w\<lparr>reads := Suc (reads w)\<rparr>"
    by (simp_all add: performance_now_def)
  obtain promises w2 where arr: "Array_from 10000 async_callback w1 = (promises, w2)"
    by (cases "Array_from 10000 async_callback w1")
  obtain joined w3 where all: "Promise_all promises w2 = (joined, w3)"
    by (cases "Promise_all promises w2")
  have batch: "await joined w3 =
      (Inr (map (\<lambda>i. js_mul (Num False (of_nat i)) (Num False 2)) [0..<10000]),
       w1\<lparr>events := events w1 @ map Created [0..<10000] @ [Joined 10000, Awaited]\<rparr>)"
    using async_batch [of 10000 w1] by (simp only: arr all prod.case)
  show ?thesis
    unfolding testAsyncOperations_def
    by (simp only: now arr all batch prod.case sum.case)
      (simp add: performance_now_def start w1)
qed

lemma two_tests_logged_run:
  "runBenchmarks_on (map logged_test two_tests) (logged ''Async/Promise'' (fixed_op (Num False 250))) h
       \<lparr>world = ([], 0), stdout = [], stderr = []\<rparr> =
     (Inr (), \<lparr>world = ([''first'', ''first'', ''second'', ''second'', ''Async/Promise''], 5),
               stdout = stdout (two_tests_done h), stderr = []\<rparr>)"
proof -
  have "measurements two_tests 0 = ([Num False 500, Num False 2000], None, 4)"
    by (simp add: two_tests_measurements)
  from measurements_logged_complete [OF this, of "[]"]
  have m: "measurements (map logged_test two_tests)
        (world \<lparr>world = ([], 0::nat), stdout = [], stderr = []\<rparr>) =
      ([Num False 500, Num False 2000], None, [''first'', ''first'', ''second'', ''second''], 4)"
    by (simp add: two_tests_def)
  have a: "logged ''Async/Promise'' (fixed_op (Num False 250)) ([''first'', ''first'', ''second'', ''second''], 4)
      = (Inr (Num False 250), [''first'', ''first'', ''second'', ''second'', ''Async/Promise''], 5)"
    by (simp add: logged_def fixed_op_def)
  show ?thesis
    unfolding runBenchmarks_on_success [where a = "logged ''Async/Promise'' (fixed_op (Num False 250))", OF m a]
    by (simp add: map2_row_of_logged map2_result_of_logged two_tests_rows two_tests_total
        async_row_250 two_tests_done_def)
qed

subsection \<open>The entry point\<close>

lemma main_on_sync_failure:
  assumes "measurements ts (world p) = (tms, Some (Thrown msg), w)"
  shows "main_on ts a h p =
           (0, p\<lparr>world := w, stdout := stdout p @ report_head h @ map2 row_of ts tms,
                  stderr := stderr p @ [msg]\<rparr>)"
  by (simp add: main_on_def runBenchmarks_on_sync_failure [OF assms] promise_catch_def
      console_error_def exit_status_def)

lemma main_on_async_failure:
  assumes "measurements ts (world p) = (tms, None, w)" and "a w = (Inl (Thrown msg), w')"
  shows "main_on ts a h p =
           (0, p\<lparr>world := w', stdout := stdout p @ report_head h @ map2 row_of ts tms
                    @ [[], ''Running async operations test...''],
                  stderr := stderr p @ [msg]\<rparr>)"
  by (simp add: main_on_def runBenchmarks_on_async_failure [where a = a, OF assms] promise_catch_def
      console_error_def exit_status_def)

lemma main_on_status: "fst (main_on ts a h p) = 0"
  by (simp add: main_on_def promise_catch_def exit_status_def split: prod.split sum.split)

lemma boom_tests_measurements:
  "measurements boom_tests n = ([], Some (Thrown ''Error: boom''), Suc n)"
  by (simp add: boom_tests_def failing_op_def)

lemma boom_tests_logged_measurements:
  "measurements (map logged_test boom_tests) ([], 0) = ([], Some (Thrown ''Error: boom''), [''boom''], 1)"
  by (simp add: boom_tests_def failing_op_def fn_logged_test)

subsection \<open>The characters of a formatted number\<close>

lemma digit_char_is_digit: "d < 10 \<Longrightarrow> is_digit (digit_char d)"
proof -
  assume "d < 10"
  then have "d \<in> {0, 1, 2, 3, 4, 5, 6, 7, 8, 9}"
    by auto
  then show ?thesis
    by (auto simp: is_digit_def digit_char_def)
qed

lemma show_nat_digits: "list_all is_digit (show_nat n)"
proof (induction n rule: show_nat.induct)
  case (1 n)
  show ?case
  proof (cases "n < 10")
    case True
    then show ?thesis
      by (subst show_nat.simps) (simp add: digit_char_is_digit)
  next
    case False
    with "1" show ?thesis
      by (subst show_nat.simps) (simp add: digit_char_is_digit)
  qed
qed

lemma show_nat_not_Nil: "show_nat n \<noteq> []"
  by (subst show_nat.simps) simp

lemma digits_are_number_chars: "list_all is_digit ds \<Longrightarrow> list_all number_char ds"
  by (simp add: list_all_iff number_char_def)

lemma strip_zeros_digits: "list_all is_digit ds \<Longrightarrow> list_all is_digit (strip_zeros ds)"
  by (auto simp: list_all_iff strip_zeros_def dest: set_dropWhileD)

lemma pointed_digits:
  "list_all is_digit sig \<Longrightarrow>
   list_all number_char (if length sig \<le> 1 then sig else hd sig # CHR ''.'' # tl sig)"
proof (cases sig)
  case Nil
  then show ?thesis by simp
next
  case (Cons c cs)
  assume "list_all is_digit sig"
  with Cons show ?thesis
    by (simp add: number_char_def list_all_iff)
qed

lemma exponential_chars: "list_all number_char (exponential x)"
proof -
  have "list_all number_char ''e+''"
    by (simp add: number_char_def)
  then show ?thesis
    unfolding exponential_def Let_def
    by (simp only: list_all_append pointed_digits strip_zeros_digits show_nat_digits
        digits_are_number_chars simp_thms)
qed

lemma fixed_digits_chars: "list_all number_char (fixed_digits f x)"
proof (cases "f = 0")
  case True
  let ?m = "show_nat (nat \<lfloor>x * 10 ^ f + 1 / 2\<rfloor>)"
  have "fixed_digits f x = ?m"
    unfolding fixed_digits_def Let_def using True by (rule if_P)
  moreover have "list_all number_char ?m"
    by (rule digits_are_number_chars) (rule show_nat_digits)
  ultimately show ?thesis
    by (simp only:)
next
  case False
  let ?m = "show_nat (nat \<lfloor>x * 10 ^ f + 1 / 2\<rfloor>)"
  let ?m' = "replicate (Suc f - length ?m) CHR ''0'' @ ?m"
  have eq: "fixed_digits f x = take (length ?m' - f) ?m' @ ''.'' @ drop (length ?m' - f) ?m'"
    unfolding fixed_digits_def Let_def using False by (rule if_not_P)
  have "list_all number_char ?m"
    by (rule digits_are_number_chars) (rule show_nat_digits)
  moreover have "list_all number_char (replicate (Suc f - length ?m) CHR ''0'')"
    by (simp add: list_all_iff number_char_def is_digit_def)
  ultimately have "list_all number_char ?m'"
    by (simp only: list_all_append simp_thms)
  then have "list_all number_char (take (length ?m' - f) ?m' @ ''.'' @ drop (length ?m' - f) ?m')"
    by (auto simp: list_all_iff number_char_def dest: in_set_takeD in_set_dropD)
  then show ?thesis
    by (simp only: eq)
qed

lemma toFixed_Num_chars: "list_all number_char (toFixed f (Num s m))"
  using exponential_chars [of m] fixed_digits_chars [of f m]
  by (simp add: number_char_def)

lemma finite_text: "\<not> non_finite_text (toFixed f (Num s m))"
proof
  assume "non_finite_text (toFixed f (Num s m))"
  then consider "toFixed f (Num s m) = ''NaN''" | "toFixed f (Num s m) = ''Infinity''"
    | "toFixed f (Num s m) = ''-Infinity''"
    by (auto simp: non_finite_text_def)
  then show False
  proof cases
    case 1
    from toFixed_Num_chars [of f s m] show False
      unfolding 1 by (simp add: number_char_def is_digit_def)
  next
    case 2
    from toFixed_Num_chars [of f s m] show False
      unfolding 2 by (simp add: number_char_def is_digit_def)
  next
    case 3
    from toFixed_Num_chars [of f s m] show False
      unfolding 3 by (simp add: number_char_def is_digit_def)
  qed
qed

lemma non_finite_text_toFixed:
  "non_finite_text (toFixed f x) = (case x of Num s m \<Rightarrow> False | _ \<Rightarrow> True)"
  by (cases x) (simp_all add: finite_text del: toFixed.simps, simp_all add: non_finite_text_def)

lemma measurements_counts_irrelevant:
  "measurements (map (\<lambda>t. t\<lparr>iterations := c t\<rparr>) ts) w = measurements ts w"
  by (induction ts arbitrary: w) (simp_all split: prod.split sum.split)

lemma registered_counts:
  "map iterations tests =
     [Num False 1000000, Num False 100000, Num False 10000, Num False 1000000, Num False 1000000,
      Num False 100000, Num False 1000000, Num False 10000, Num False 10000]"
  by (simp add: tests_def ITERATIONS_def num_ev)

subsection \<open>The shape of a row\<close>

lemma row_fields:
  "row nm tm ops =
     nm @ replicate (25 - length nm) CHR '' '' @ '' ''
       @ replicate (10 - length tm) CHR '' '' @ tm @ '' ms  ''
       @ replicate (15 - length ops) CHR '' '' @ ops @ '' ops/sec''"
  by (simp add: row_def padEnd_def padStart_def)

lemma length_padEnd: "length (padEnd n s) = max n (length s)"
  by (simp add: padEnd_def)

lemma length_padStart: "length (padStart n s) = max n (length s)"
  by (simp add: padStart_def)

lemma row_columns:
  assumes "length nm \<le> 25" and "length tm \<le> 10" and "length ops \<le> 15"
  shows "length (row nm tm ops) = 64"
    and "take 25 (row nm tm ops) = padEnd 25 nm"
    and "take 1 (drop 25 (row nm tm ops)) = '' ''"
    and "take 10 (drop 26 (row nm tm ops)) = padStart 10 tm"
    and "take 5 (drop 36 (row nm tm ops)) = '' ms  ''"
    and "take 15 (drop 41 (row nm tm ops)) = padStart 15 ops"
    and "drop 56 (row nm tm ops) = '' ops/sec''"
proof -
  let ?a = "padEnd 25 nm" and ?b = "padStart 10 tm" and ?c = "padStart 15 ops"
  have la: "length ?a = 25" and lb: "length ?b = 10" and lc: "length ?c = 15"
    using assms by (simp_all add: length_padEnd length_padStart)
  have r: "row nm tm ops = ?a @ '' '' @ ?b @ '' ms  '' @ ?c @ '' ops/sec''"
    by (simp add: row_def)
  show "length (row nm tm ops) = 64"
    by (simp add: r la lb lc)
  show "take 25 (row nm tm ops) = padEnd 25 nm"
    by (simp add: r la)
  show "take 1 (drop 25 (row nm tm ops)) = '' ''"
    by (simp add: r la)
  show "take 10 (drop 26 (row nm tm ops)) = padStart 10 tm"
    by (simp add: r la lb)
  show "take 5 (drop 36 (row nm tm ops)) = '' ms  ''"
    by (simp add: r la lb)
  show "take 15 (drop 41 (row nm tm ops)) = padStart 15 ops"
    by (simp add: r la lb lc)
  show "drop 56 (row nm tm ops) = '' ops/sec''"
    by (simp add: r la lb lc)
qed

lemma split_last_two:
  "3 \<le> length xs \<Longrightarrow> take (length xs - 2) xs \<noteq> [] \<and> length (drop (length xs - 2) xs) = 2"
  by auto

lemma toFixed_2_shape:
  assumes "m < 10 ^ 21"
  shows "\<exists>ip fp. toFixed 2 (Num False m) = ip @ ''.'' @ fp \<and> ip \<noteq> [] \<and> length fp = 2 \<and>
           list_all is_digit ip \<and> list_all is_digit fp"
proof -
  let ?m = "show_nat (nat \<lfloor>m * 10 ^ 2 + 1 / 2\<rfloor>)"
  let ?m' = "replicate (Suc 2 - length ?m) CHR ''0'' @ ?m"
  have eq: "fixed_digits 2 m = take (length ?m' - 2) ?m' @ ''.'' @ drop (length ?m' - 2) ?m'"
    unfolding fixed_digits_def Let_def by (rule if_not_P) simp
  have "toFixed 2 (Num False m) = fixed_digits 2 m"
    using assms by simp
  then have fixed: "toFixed 2 (Num False m) = take (length ?m' - 2) ?m' @ ''.'' @ drop (length ?m' - 2) ?m'"
    by (simp only: eq)
  have len: "3 \<le> length ?m'"
    by simp
  have "list_all is_digit (replicate (Suc 2 - length ?m) CHR ''0'')"
    by (simp add: list_all_iff is_digit_def)
  with show_nat_digits [of "nat \<lfloor>m * 10 ^ 2 + 1 / 2\<rfloor>"] have digits: "list_all is_digit ?m'"
    by (simp only: list_all_append simp_thms)
  from split_last_two [OF len]
  have "take (length ?m' - 2) ?m' \<noteq> []" and "length (drop (length ?m' - 2) ?m') = 2"
    by blast+
  moreover have "list_all is_digit (take (length ?m' - 2) ?m')"
    using digits by (auto simp: list_all_iff dest: in_set_takeD)
  moreover have "list_all is_digit (drop (length ?m' - 2) ?m')"
    using digits by (auto simp: list_all_iff dest: in_set_dropD)
  ultimately show ?thesis
    using fixed by blast
qed

lemma toFixed_0_shape:
  assumes "q < 10 ^ 21"
  shows "toFixed 0 (Num False q) \<noteq> [] \<and> list_all is_digit (toFixed 0 (Num False q))"
proof -
  have "toFixed 0 (Num False q) = show_nat (nat \<lfloor>q + 1 / 2\<rfloor>)"
    using assms by (simp add: fixed_digits_def)
  then show ?thesis
    by (simp only: show_nat_not_Nil show_nat_digits simp_thms)
qed

lemma registered_names_fit: "list_all (\<lambda>t. length (test.name t) \<le> 25) tests"
  by (simp add: tests_def)

lemma row_long_name:
  "row ''abcdefghijklmnopqrstuvwxyz'' ''1.00'' ''5'' =
     ''abcdefghijklmnopqrstuvwxyz       1.00 ms                5 ops/sec''"
  by (simp add: str_ev)

lemma toFixed_2_one: "toFixed 2 (Num False 1) = ''1.00''"
  by (simp add: num_ev str_ev)

lemma toFixed_0_five: "toFixed 0 (Num False 5) = ''5''"
  by (simp add: num_ev str_ev)

subsection \<open>The program's own table\<close>

lemma timed_loop_run:
  "timed_loop w = (Inr (js_sub (clock w (Suc (reads w))) (clock w (reads w))),
                   w\<lparr>reads := Suc (Suc (reads w))\<rparr>)"
  by (simp add: timed_loop_def performance_now_def)

lemma registry_never_fails: "fst (snd (measurements tests w)) = None"
  by (simp add: tests_def timed_loop_run testJSONOperations_def testStringOperations_def
      testArrayOperations_def testObjectOperations_def testMathOperations_def
      testRegExpOperations_def testFunctionCalls_def testBufferOperations_def
      testCollectionOperations_def)

lemma runBenchmarks_completes: "fst (runBenchmarks h p) = Inr ()"
proof -
  obtain tms r w where m: "measurements tests (world p) = (tms, r, w)"
    by (cases "measurements tests (world p)") auto
  with registry_never_fails [of "world p"] have r: "r = None"
    by simp
  obtain ra w' where a: "testAsyncOperations w = (ra, w')"
    by (cases "testAsyncOperations w") auto
  then obtain atm where ra: "ra = Inr atm"
    by (auto simp: testAsyncOperations_run)
  from m r a ra show ?thesis
    by (simp add: runBenchmarks_def
        runBenchmarks_on_success [of tests p tms w testAsyncOperations atm w' h])
qed

section \<open>The claims\<close>

text \<open>
  C6. A run that completes prints one row for every registered descriptor, in the order
  of the registry, and then the row of the asynchronous case: the output is the header,
  the \<open>length ts\<close> synchronous rows (row \<open>i\<close> is the one of descriptor \<open>ts ! i\<close> with its
  measured time), the announcement, the asynchronous row and the footer.
\<close>

theorem report_rows_in_registration_order:
  assumes "runBenchmarks_on ts a h p = (Inr (), p')"
  shows "\<exists>tms w atm.
           measurements ts (world p) = (tms, None, w) \<and> a w = (Inr atm, world p') \<and>
           length tms = length ts \<and>
           length (map2 row_of ts tms) = length ts \<and>
           (\<forall>i<length ts. map2 row_of ts tms ! i = row_of (ts ! i) (tms ! i)) \<and>
           stdout p' = stdout p @ report_head h @ map2 row_of ts tms
             @ [[], ''Running async operations test...'', async_row atm]
             @ [[], rule_line, total_line (map2 result_of ts tms), rule_line]"
proof -
  obtain tms r w where m: "measurements ts (world p) = (tms, r, w)"
    by (cases "measurements ts (world p)") auto
  have r: "r = None"
  proof (cases r)
    case (Some err)
    with m assms show ?thesis
      by (simp add: runBenchmarks_on_sync_failure [of ts p tms err w a])
  qed simp
  obtain ra w' where a: "a w = (ra, w')"
    by (cases "a w") auto
  obtain atm where ra: "ra = Inr atm"
  proof (cases ra)
    case (Inl err)
    with m r a assms show ?thesis
      by (simp add: runBenchmarks_on_async_failure [of ts p tms w a err w'])
  qed simp
  have len: "length tms = length ts"
    using m r by (simp add: measurements_complete)
  have p': "p' = p\<lparr>world := w', stdout := stdout p @ report_head h @ map2 row_of ts tms
               @ [[], ''Running async operations test...'', async_row atm,
                  [], rule_line, total_line (map2 result_of ts tms), rule_line]\<rparr>"
    using assms m r a ra by (simp add: runBenchmarks_on_success [of ts p tms w a atm w'])
  show ?thesis
    using m r a ra len p' by (intro exI [of _ tms] exI [of _ w] exI [of _ atm]) simp
qed

theorem report_rows_in_registration_order_witness:
  "runBenchmarks_on two_tests (fixed_op (Num False 250)) node_host fresh
     = (Inr (), two_tests_done node_host) \<and>
   (\<exists>tms w atm.
      measurements two_tests (world fresh) = (tms, None, w) \<and>
      fixed_op (Num False 250) w = (Inr atm, world (two_tests_done node_host)) \<and>
      length tms = length two_tests \<and>
      length (map2 row_of two_tests tms) = length two_tests \<and>
      (\<forall>i<length two_tests. map2 row_of two_tests tms ! i = row_of (two_tests ! i) (tms ! i)) \<and>
      stdout (two_tests_done node_host) = stdout fresh @ report_head node_host @ map2 row_of two_tests tms
        @ [[], ''Running async operations test...'', async_row atm]
        @ [[], rule_line, total_line (map2 result_of two_tests tms), rule_line])"
  using report_rows_in_registration_order [OF two_tests_run [of node_host]] two_tests_run [of node_host]
  by simp

text \<open>
  C9. The runtime name and version reach the title line only. Two runs from the same
  state that differ in the detected host alone end with the same outcome, the same world
  and the same error output, and their standard outputs agree on every line but the
  title (the second line written): each row with its elapsed time and throughput and the
  footer total are identical.
\<close>

theorem runtime_label_is_cosmetic:
  "fst (runBenchmarks_on ts a h1 p) = fst (runBenchmarks_on ts a h2 p) \<and>
   world (snd (runBenchmarks_on ts a h1 p)) = world (snd (runBenchmarks_on ts a h2 p)) \<and>
   stderr (snd (runBenchmarks_on ts a h1 p)) = stderr (snd (runBenchmarks_on ts a h2 p)) \<and>
   stdout (snd (runBenchmarks_on ts a h1 p)) ! Suc (length (stdout p)) = title_line h1 \<and>
   stdout (snd (runBenchmarks_on ts a h2 p)) ! Suc (length (stdout p)) = title_line h2 \<and>
   (stdout (snd (runBenchmarks_on ts a h1 p))) [Suc (length (stdout p)) := l]
     = (stdout (snd (runBenchmarks_on ts a h2 p))) [Suc (length (stdout p)) := l]"
proof -
  obtain r w rest where run: "\<And>h. runBenchmarks_on ts a h p =
      (r, p\<lparr>world := w, stdout := stdout p @ report_head h @ rest\<rparr>)"
    using runBenchmarks_on_shape [of ts a p] by blast
  show ?thesis
    by (simp add: run report_head_def list_update_append nth_append)
qed

theorem runtime_label_is_cosmetic_witness:
  "fst (runBenchmarks_on two_tests (fixed_op (Num False 250)) node_host fresh)
     = fst (runBenchmarks_on two_tests (fixed_op (Num False 250)) bun_host fresh) \<and>
   stdout (two_tests_done node_host) ! 1 = ''  Performance Stress Test - Node.js v22.0.0'' \<and>
   stdout (two_tests_done bun_host) ! 1 = ''  Performance Stress Test - Bun 1.1.0'' \<and>
   (stdout (two_tests_done node_host)) [1 := []] = (stdout (two_tests_done bun_host)) [1 := []]"
proof -
  have t1: "title_line node_host = ''  Performance Stress Test - Node.js v22.0.0''"
    by (simp add: title_line_def runtime_name_def runtime_version_def node_host_def)
  have t2: "title_line bun_host = ''  Performance Stress Test - Bun 1.1.0''"
    by (simp add: title_line_def runtime_name_def runtime_version_def bun_host_def)
  have l: "Suc (length (stdout fresh)) = 1"
    by (simp add: fresh_def)
  from runtime_label_is_cosmetic [of two_tests "fixed_op (Num False 250)" node_host fresh bun_host "[]"]
  show ?thesis
    unfolding two_tests_run l t1 t2 by simp
qed

text \<open>
  C1. In a run of the loop that completes, the throughput stored for descriptor \<open>i\<close> is
  \<open>toFixed(0)\<close> of the double quotient \<open>iterations / (time / 1000)\<close>, with \<open>time\<close> the
  value its measured invocation returned. For a positive count and a positive elapsed
  time the quotient is a non-negative finite double or \<open>Infinity\<close>; when it is finite and
  below \<open>10^21\<close> the stored string is the decimal numeral of the quotient rounded to the
  nearest integer, halves upwards.
\<close>

theorem throughput_is_rounded_quotient:
  assumes "run_tests ts [] p = (Inr rs, p')" and "i < length ts"
  shows "\<exists>tms w. measurements ts (world p) = (tms, None, w) \<and>
           length tms = length ts \<and> length rs = length ts \<and>
           opsPerSec (rs ! i) =
             toFixed 0 (js_div (iterations (ts ! i)) (js_div (tms ! i) (Num False 1000))) \<and>
           (\<forall>l e. iterations (ts ! i) = Num False l \<longrightarrow> tms ! i = Num False e \<longrightarrow> 0 < l \<longrightarrow> 0 < e \<longrightarrow>
              js_div (iterations (ts ! i)) (js_div (tms ! i) (Num False 1000)) = Infty False \<or>
              (\<exists>q. js_div (iterations (ts ! i)) (js_div (tms ! i) (Num False 1000)) = Num False q \<and> 0 \<le> q)) \<and>
           (\<forall>q. js_div (iterations (ts ! i)) (js_div (tms ! i) (Num False 1000)) = Num False q \<longrightarrow>
              0 \<le> q \<longrightarrow> q < 10 ^ 21 \<longrightarrow>
              opsPerSec (rs ! i) = show_nat (nat (round_half_up q)) \<and>
              int (digits_val (opsPerSec (rs ! i))) = round_half_up q)"
proof -
  obtain tms r w where m: "measurements ts (world p) = (tms, r, w)"
    by (cases "measurements ts (world p)") auto
  from assms(1) m have r: "r = None" and rs: "rs = map2 result_of ts tms"
    by (auto simp: run_tests_measurements split: option.splits)
  have len: "length tms = length ts"
    using m r by (simp add: measurements_complete)
  have ops: "opsPerSec (rs ! i) =
      toFixed 0 (js_div (iterations (ts ! i)) (js_div (tms ! i) (Num False 1000)))"
    using assms(2) len by (simp add: rs result_of_def)
  have rounded: "opsPerSec (rs ! i) = show_nat (nat (round_half_up q)) \<and>
      int (digits_val (opsPerSec (rs ! i))) = round_half_up q"
    if q: "js_div (iterations (ts ! i)) (js_div (tms ! i) (Num False 1000)) = Num False q"
      and "0 \<le> q" and "q < 10 ^ 21" for q
  proof -
    have "0 \<le> round_half_up q"
      using that by (simp add: round_half_up_def)
    moreover have "opsPerSec (rs ! i) = show_nat (nat (round_half_up q))"
      unfolding ops q using that(2,3) by (rule toFixed_0_rounds)
    ultimately show ?thesis
      by (simp add: digits_val_show_nat)
  qed
  have positive: "js_div (iterations (ts ! i)) (js_div (tms ! i) (Num False 1000)) = Infty False \<or>
      (\<exists>q. js_div (iterations (ts ! i)) (js_div (tms ! i) (Num False 1000)) = Num False q \<and> 0 \<le> q)"
    if "iterations (ts ! i) = Num False l" and "tms ! i = Num False e" and "0 < l" and "0 < e" for l e
    unfolding that(1,2) using that(3,4) by (rule positive_quotient_cases)
  have lrs: "length rs = length ts"
    using len by (simp add: rs)
  show ?thesis
  proof (intro exI conjI allI impI)
    show "measurements ts (world p) = (tms, None, w)"
      using m r by simp
    show "length tms = length ts"
      by (rule len)
    show "length rs = length ts"
      by (rule lrs)
    show "opsPerSec (rs ! i) =
        toFixed 0 (js_div (iterations (ts ! i)) (js_div (tms ! i) (Num False 1000)))"
      by (rule ops)
  qed (use rounded positive in blast)+
qed

theorem throughput_is_rounded_quotient_witness:
  "run_tests two_tests [] fresh = (Inr two_tests_results, two_tests_after_loop) \<and>
   0 < length two_tests \<and>
   (\<exists>tms w. measurements two_tests (world fresh) = (tms, None, w) \<and>
      length tms = length two_tests \<and> length two_tests_results = length two_tests \<and>
      opsPerSec (two_tests_results ! 0) =
        toFixed 0 (js_div (iterations (two_tests ! 0)) (js_div (tms ! 0) (Num False 1000))) \<and>
      (\<forall>l e. iterations (two_tests ! 0) = Num False l \<longrightarrow> tms ! 0 = Num False e \<longrightarrow> 0 < l \<longrightarrow> 0 < e \<longrightarrow>
         js_div (iterations (two_tests ! 0)) (js_div (tms ! 0) (Num False 1000)) = Infty False \<or>
         (\<exists>q. js_div (iterations (two_tests ! 0)) (js_div (tms ! 0) (Num False 1000)) = Num False q \<and> 0 \<le> q)) \<and>
      (\<forall>q. js_div (iterations (two_tests ! 0)) (js_div (tms ! 0) (Num False 1000)) = Num False q \<longrightarrow>
         0 \<le> q \<longrightarrow> q < 10 ^ 21 \<longrightarrow>
         opsPerSec (two_tests_results ! 0) = show_nat (nat (round_half_up q)) \<and>
         int (digits_val (opsPerSec (two_tests_results ! 0))) = round_half_up q))"
proof -
  have "0 < length two_tests"
    by (simp add: two_tests_def)
  from throughput_is_rounded_quotient [OF two_tests_loop this] two_tests_loop this
  show ?thesis
    by blast
qed

text \<open>
  C10. Every result the loop accumulates holds strings: the measured time formatted by
  \<open>toFixed(2)\<close> and the throughput formatted by \<open>toFixed(0)\<close>. The footer of a completed
  run is \<open>toFixed(2)\<close> of the sum obtained by parsing those time strings back with
  \<open>parseFloat\<close> and adding them from \<open>0\<close>: it is the sum of the displayed values.
\<close>

theorem footer_sums_displayed_times:
  assumes "runBenchmarks_on ts a h p = (Inr (), p')"
  shows "\<exists>tms w rs.
           measurements ts (world p) = (tms, None, w) \<and>
           (\<forall>q. world q = world p \<longrightarrow> fst (run_tests ts [] q) = Inr rs) \<and>
           map time rs = map (toFixed 2) tms \<and>
           map opsPerSec rs =
             map2 (\<lambda>t tm. toFixed 0 (js_div (iterations t) (js_div tm (Num False 1000)))) ts tms \<and>
           footer_total (stdout p') = ''  Total Runtime: ''
             @ toFixed 2 (foldl (\<lambda>sum r. js_add sum (parseFloat (time r))) (Num False 0) rs) @ '' ms'' \<and>
           footer_total (stdout p') = ''  Total Runtime: ''
             @ toFixed 2 (foldl (\<lambda>sum s. js_add sum (parseFloat s)) (Num False 0) (map (toFixed 2) tms))
             @ '' ms''"
proof -
  from assms obtain tms w atm where m: "measurements ts (world p) = (tms, None, w)"
    and a: "a w = (Inr atm, world p')" and len: "length tms = length ts"
    by (rule completed_run)
  let ?rs = "map2 result_of ts tms"
  have loop: "fst (run_tests ts [] q) = Inr ?rs" if "world q = world p" for q
    using m that by (simp add: run_tests_measurements)
  have foot: "footer_total (stdout p') = total_line ?rs"
    using footer_total_success [where a = a and h = h, OF m a] assms by simp
  show ?thesis
  proof (intro exI conjI allI impI)
    show "measurements ts (world p) = (tms, None, w)"
      by (rule m)
    show "fst (run_tests ts [] q) = Inr ?rs" if "world q = world p" for q
      using that by (rule loop)
    show "map time ?rs = map (toFixed 2) tms"
      using len by (rule map_time_results)
    show "map opsPerSec ?rs =
        map2 (\<lambda>t tm. toFixed 0 (js_div (iterations t) (js_div tm (Num False 1000)))) ts tms"
      by (rule map_opsPerSec_results)
    show "footer_total (stdout p') = ''  Total Runtime: ''
        @ toFixed 2 (foldl (\<lambda>sum r. js_add sum (parseFloat (time r))) (Num False 0) ?rs) @ '' ms''"
      by (simp only: foot total_line_def total_runtime_def)
    show "footer_total (stdout p') = ''  Total Runtime: ''
        @ toFixed 2 (foldl (\<lambda>sum s. js_add sum (parseFloat s)) (Num False 0) (map (toFixed 2) tms))
        @ '' ms''"
      by (simp only: foot total_line_def total_runtime_displayed [OF len])
  qed
qed

theorem footer_sums_displayed_times_witness:
  "runBenchmarks_on two_tests (fixed_op (Num False 250)) node_host fresh
     = (Inr (), two_tests_done node_host) \<and>
   (\<exists>tms w rs.
      measurements two_tests (world fresh) = (tms, None, w) \<and>
      (\<forall>q. world q = world fresh \<longrightarrow> fst (run_tests two_tests [] q) = Inr rs) \<and>
      map time rs = map (toFixed 2) tms \<and>
      map opsPerSec rs =
        map2 (\<lambda>t tm. toFixed 0 (js_div (iterations t) (js_div tm (Num False 1000)))) two_tests tms \<and>
      footer_total (stdout (two_tests_done node_host)) = ''  Total Runtime: ''
        @ toFixed 2 (foldl (\<lambda>sum r. js_add sum (parseFloat (time r))) (Num False 0) rs) @ '' ms'' \<and>
      footer_total (stdout (two_tests_done node_host)) = ''  Total Runtime: ''
        @ toFixed 2 (foldl (\<lambda>sum s. js_add sum (parseFloat s)) (Num False 0) (map (toFixed 2) tms))
        @ '' ms'')"
  using two_tests_run [of node_host] footer_sums_displayed_times [OF two_tests_run [of node_host]]
  by (rule conjI)

text \<open>
  C2, as the program has it. The footer of a completed run is computed from the
  synchronous measurements alone, so two runs that differ only in the asynchronous
  workload print the same total; the asynchronous time is not part of it. The total is
  \<open>toFixed(2)\<close> of the sum of the displayed, two-decimal elapsed values of the
  synchronous rows, not of the measured values themselves.
\<close>

theorem total_covers_synchronous_rows_only:
  assumes "runBenchmarks_on ts a1 h p = (Inr (), p1)"
    and "runBenchmarks_on ts a2 h p = (Inr (), p2)"
  shows "footer_total (stdout p1) = footer_total (stdout p2) \<and>
         (\<exists>tms w. measurements ts (world p) = (tms, None, w) \<and>
            footer_total (stdout p1) = ''  Total Runtime: ''
              @ toFixed 2 (foldl (\<lambda>sum tm. js_add sum (parseFloat (toFixed 2 tm))) (Num False 0) tms)
              @ '' ms'')"
proof -
  from assms(1) obtain tms w atm where m: "measurements ts (world p) = (tms, None, w)"
    and a1: "a1 w = (Inr atm, world p1)" and len: "length tms = length ts"
    by (rule completed_run)
  from assms(2) obtain tms' w' atm' where m': "measurements ts (world p) = (tms', None, w')"
    and a2: "a2 w' = (Inr atm', world p2)"
    by (rule completed_run)
  from m m' have same: "tms' = tms" "w' = w"
    by simp_all
  have f1: "footer_total (stdout p1) = total_line (map2 result_of ts tms)"
    using footer_total_success [where a = a1 and h = h, OF m a1] assms(1) by simp
  have f2: "footer_total (stdout p2) = total_line (map2 result_of ts tms)"
    using footer_total_success [where a = a2 and h = h, OF m a2 [unfolded same]] assms(2) by simp
  have "footer_total (stdout p1) = ''  Total Runtime: ''
      @ toFixed 2 (foldl (\<lambda>sum tm. js_add sum (parseFloat (toFixed 2 tm))) (Num False 0) tms)
      @ '' ms''"
    by (simp add: f1 total_line_def total_runtime_displayed [OF len] foldl_map)
  with f1 f2 m show ?thesis
    by auto
qed

theorem total_covers_synchronous_rows_only_witness:
  "runBenchmarks_on two_tests (fixed_op (Num False 250)) node_host fresh
     = (Inr (), two_tests_report ''Async/Promise                 250.00 ms            40000 ops/sec'' node_host) \<and>
   runBenchmarks_on two_tests (fixed_op (Num False 2000)) node_host fresh
     = (Inr (), two_tests_report ''Async/Promise                2000.00 ms             5000 ops/sec'' node_host) \<and>
   footer_total (stdout (two_tests_report ''Async/Promise                 250.00 ms            40000 ops/sec'' node_host))
     = footer_total (stdout (two_tests_report ''Async/Promise                2000.00 ms             5000 ops/sec'' node_host)) \<and>
   (\<exists>tms w. measurements two_tests (world fresh) = (tms, None, w) \<and>
      footer_total (stdout (two_tests_report ''Async/Promise                 250.00 ms            40000 ops/sec'' node_host))
        = ''  Total Runtime: ''
          @ toFixed 2 (foldl (\<lambda>sum tm. js_add sum (parseFloat (toFixed 2 tm))) (Num False 0) tms)
          @ '' ms'')"
proof -
  have r1: "runBenchmarks_on two_tests (fixed_op (Num False 250)) node_host fresh
      = (Inr (), two_tests_report ''Async/Promise                 250.00 ms            40000 ops/sec'' node_host)"
    by (simp only: two_tests_run_async async_row_250)
  have r2: "runBenchmarks_on two_tests (fixed_op (Num False 2000)) node_host fresh
      = (Inr (), two_tests_report ''Async/Promise                2000.00 ms             5000 ops/sec'' node_host)"
    by (simp only: two_tests_run_async async_row_2000)
  from total_covers_synchronous_rows_only [OF r1 r2] r1 r2 show ?thesis
    by blast
qed

text \<open>
  The claim as stated fails: two synchronous workloads measured at \<open>1/256\<close> ms each are
  displayed as \<open>0.00\<close>, and the footer reads \<open>0.00\<close>, while the sum of the measured times,
  \<open>1/128\<close> ms, reads \<open>0.01\<close> to two decimals.
\<close>

theorem total_is_not_the_measured_sum:
  "fst (runBenchmarks_on tiny_tests (fixed_op (Num False 250)) node_host fresh) = Inr () \<and>
   measurements tiny_tests (world fresh) = ([Num False (1 / 256), Num False (1 / 256)], None, 4) \<and>
   footer_total (stdout (snd (runBenchmarks_on tiny_tests (fixed_op (Num False 250)) node_host fresh)))
     = ''  Total Runtime: 0.00 ms'' \<and>
   ''  Total Runtime: '' @ toFixed 2 (foldl js_add (Num False 0) [Num False (1 / 256), Num False (1 / 256)]) @ '' ms''
     = ''  Total Runtime: 0.01 ms''"
proof -
  have m: "measurements tiny_tests (world fresh) = ([Num False (1 / 256), Num False (1 / 256)], None, 4)"
    by (simp add: tiny_tests_measurements fresh_def)
  have a: "fixed_op (Num False 250) 4 = (Inr (Num False 250), 5)"
    by (simp add: fixed_op_def)
  have len: "length [Num False (1 / 256), Num False (1 / 256)] = length tiny_tests"
    by (simp add: tiny_tests_def)
  have "total_line (map2 result_of tiny_tests [Num False (1 / 256), Num False (1 / 256)])
      = ''  Total Runtime: 0.00 ms''"
    unfolding total_line_def total_runtime_displayed [OF len]
    by (simp add: toFixed_2_tiny parseFloat_zero toFixed_2_zero signed_def del: toFixed.simps)
  then have foot: "footer_total (stdout (snd (runBenchmarks_on tiny_tests (fixed_op (Num False 250)) node_host fresh)))
      = ''  Total Runtime: 0.00 ms''"
    by (simp only: footer_total_success [where a = "fixed_op (Num False 250)", OF m a])
  have ok: "fst (runBenchmarks_on tiny_tests (fixed_op (Num False 250)) node_host fresh) = Inr ()"
    by (simp add: runBenchmarks_on_success [where a = "fixed_op (Num False 250)", OF m a])
  have sum: "toFixed 2 (foldl js_add (Num False 0) [Num False (1 / 256), Num False (1 / 256)]) = ''0.01''"
    by (simp add: js_add_tiny toFixed_2_tiny_sum del: toFixed.simps js_add.simps)
  from ok m foot sum show ?thesis
    by simp
qed

text \<open>
  C5. The loop calls the operation of every descriptor twice in a row, and nothing else:
  when each operation records its own name on being called, a completed loop has added
  every name exactly twice, in registry order. The value the first call returns is
  dropped; the stored elapsed time, the stored throughput and the printed row are
  computed from the value the second call returns.
\<close>

theorem warm_up_then_measured:
  "(run_tests (map logged_test ts) rs p = (Inr rs', p') \<longrightarrow>
      fst (world p') = fst (world p) @ concat (map (\<lambda>t. [test.name t, test.name t]) ts)) \<and>
   (fn t w = (Inr warm, w1) \<longrightarrow> fn t w1 = (Inr tm, w2) \<longrightarrow>
      run_tests [t] rs0 \<lparr>world = w, stdout = out, stderr = errs\<rparr> =
        (Inr (rs0 @ [\<lparr>name = test.name t, time = toFixed 2 tm,
                      opsPerSec = toFixed 0 (js_div (iterations t) (js_div tm (Num False 1000)))\<rparr>]),
         \<lparr>world = w2,
          stdout = out @ [row (test.name t) (toFixed 2 tm)
                            (toFixed 0 (js_div (iterations t) (js_div tm (Num False 1000))))],
          stderr = errs\<rparr>))"
proof (intro conjI impI)
  assume run: "run_tests (map logged_test ts) rs p = (Inr rs', p')"
  obtain tms r lw where m: "measurements (map logged_test ts) (world p) = (tms, r, lw)"
    by (cases "measurements (map logged_test ts) (world p)") auto
  from run m have "r = None" and "world p' = lw"
    by (auto simp: run_tests_measurements split: option.splits)
  with m logged_calls_complete [of ts "world p" tms lw]
  show "fst (world p') = fst (world p) @ concat (map (\<lambda>t. [test.name t, test.name t]) ts)"
    by simp
next
  assume "fn t w = (Inr warm, w1)" and "fn t w1 = (Inr tm, w2)"
  then show "run_tests [t] rs0 \<lparr>world = w, stdout = out, stderr = errs\<rparr> =
        (Inr (rs0 @ [\<lparr>name = test.name t, time = toFixed 2 tm,
                      opsPerSec = toFixed 0 (js_div (iterations t) (js_div tm (Num False 1000)))\<rparr>]),
         \<lparr>world = w2,
          stdout = out @ [row (test.name t) (toFixed 2 tm)
                            (toFixed 0 (js_div (iterations t) (js_div tm (Num False 1000))))],
          stderr = errs\<rparr>)"
    by (simp add: call_def throughput_def console_log_def Let_def)
qed

theorem warm_up_then_measured_witness:
  "run_tests (map logged_test two_tests) [] \<lparr>world = ([], 0), stdout = [], stderr = []\<rparr> =
     (Inr two_tests_results,
      \<lparr>world = ([''first'', ''first'', ''second'', ''second''], 4),
       stdout = stdout two_tests_after_loop, stderr = []\<rparr>) \<and>
   [''first'', ''first'', ''second'', ''second'']
     = [] @ concat (map (\<lambda>t. [test.name t, test.name t]) two_tests) \<and>
   fn warming_test 0 = (Inr (Num False 2000), 1) \<and>
   fn warming_test 1 = (Inr (Num False 500), 2) \<and>
   run_tests [warming_test] [] \<lparr>world = 0, stdout = [], stderr = []\<rparr> =
     (Inr [\<lparr>name = ''first'', time = ''500.00'', opsPerSec = ''2000''\<rparr>],
      \<lparr>world = 2,
       stdout = [''first                         500.00 ms             2000 ops/sec''],
       stderr = []\<rparr>)"
proof -
  have warm: "fn warming_test 0 = (Inr (Num False 2000), 1)"
    by (simp add: warming_test_def warming_op_def)
  have meas: "fn warming_test 1 = (Inr (Num False 500), 2)"
    by (simp add: warming_test_def warming_op_def)
  note inst = warm_up_then_measured [of two_tests "[]" "\<lparr>world = ([], 0), stdout = [], stderr = []\<rparr>"
      two_tests_results
      "\<lparr>world = ([''first'', ''first'', ''second'', ''second''], 4),
        stdout = stdout two_tests_after_loop, stderr = []\<rparr>"
      warming_test 0 "Num False 2000" 1 "Num False 500" 2 "[]" "[]" "[]"]
  have calls: "[''first'', ''first'', ''second'', ''second'']
      = [] @ concat (map (\<lambda>t. [test.name t, test.name t]) two_tests)"
    using inst two_tests_logged_loop by simp
  have "run_tests [warming_test] [] \<lparr>world = 0, stdout = [], stderr = []\<rparr> =
     (Inr [\<lparr>name = ''first'', time = ''500.00'', opsPerSec = ''2000''\<rparr>],
      \<lparr>world = 2,
       stdout = [''first                         500.00 ms             2000 ops/sec''],
       stderr = []\<rparr>)"
    using inst warm meas
    by (simp add: warming_test_def toFixed_2_500 throughput_1000_500 row_first
        del: toFixed.simps js_div.simps)
  with two_tests_logged_loop calls warm meas show ?thesis
    by simp
qed

text \<open>
  C8. In a completed run the asynchronous workload is called once, after the last
  synchronous call and with no warm-up call before it: with every operation recording
  its name on being called, the names added are each synchronous name twice and then
  the asynchronous one once. Its row is computed from the time that single call
  returned and from the constant count 10000. The workload itself takes the start
  reading, creates the 10000 promises one after the other with no wait between them,
  joins them with one \<open>Promise.all\<close>, waits once on the joined promise and takes the end
  reading; it cannot fail.
\<close>

theorem async_measured_once:
  "(runBenchmarks_on (map logged_test ts) (logged nm a) h p = (Inr (), p') \<longrightarrow>
      fst (world p') = fst (world p) @ concat (map (\<lambda>t. [test.name t, test.name t]) ts) @ [nm] \<and>
      (\<exists>tms lw atm front.
         measurements (map logged_test ts) (world p) = (tms, None, lw) \<and>
         a (snd lw) = (Inr atm, snd (world p')) \<and>
         stdout p' = front
           @ [row ''Async/Promise'' (toFixed 2 atm)
                (toFixed 0 (js_div (Num False 10000) (js_div atm (Num False 1000)))),
              [], rule_line, total_line (map2 result_of ts tms), rule_line])) \<and>
   testAsyncOperations w =
     (Inr (js_sub (clock w (Suc (reads w))) (clock w (reads w))),
      w\<lparr>reads := Suc (Suc (reads w)),
        events := events w @ map Created [0..<10000] @ [Joined 10000, Awaited]\<rparr>)"
proof (intro conjI impI)
  assume run: "runBenchmarks_on (map logged_test ts) (logged nm a) h p = (Inr (), p')"
  then obtain tms lw atm where m: "measurements (map logged_test ts) (world p) = (tms, None, lw)"
    and a: "logged nm a lw = (Inr atm, world p')"
    and p': "p' = p\<lparr>world := world p',
               stdout := stdout p @ report_head h @ map2 row_of (map logged_test ts) tms
                 @ [[], ''Running async operations test...'', async_row atm,
                    [], rule_line, total_line (map2 result_of (map logged_test ts) tms), rule_line]\<rparr>"
    by (rule completed_run)
  obtain calls w0 where lw: "lw = (calls, w0)"
    by (cases lw)
  obtain ra w1 where aw: "a w0 = (ra, w1)"
    by (cases "a w0")
  with a have "ra = Inr atm" and wp: "world p' = (calls @ [nm], w1)"
    by (simp_all add: lw logged_def)
  with aw have a': "a w0 = (Inr atm, snd (world p'))" and calls': "fst (world p') = calls @ [nm]"
    by simp_all
  from logged_calls_complete [OF m]
  have calls: "calls = fst (world p) @ concat (map (\<lambda>t. [test.name t, test.name t]) ts)"
    by (simp add: lw)
  show "fst (world p') = fst (world p) @ concat (map (\<lambda>t. [test.name t, test.name t]) ts) @ [nm]"
    by (simp add: calls' calls)
  have out: "stdout p' =
      (stdout p @ report_head h @ map2 row_of ts tms @ [[], ''Running async operations test...''])
      @ [row ''Async/Promise'' (toFixed 2 atm)
           (toFixed 0 (js_div (Num False 10000) (js_div atm (Num False 1000)))),
         [], rule_line, total_line (map2 result_of ts tms), rule_line]"
    by (subst p') (simp add: map2_row_of_logged map2_result_of_logged async_row_def
        del: toFixed.simps js_div.simps)
  from m a' out show "\<exists>tms lw atm front.
         measurements (map logged_test ts) (world p) = (tms, None, lw) \<and>
         a (snd lw) = (Inr atm, snd (world p')) \<and>
         stdout p' = front
           @ [row ''Async/Promise'' (toFixed 2 atm)
                (toFixed 0 (js_div (Num False 10000) (js_div atm (Num False 1000)))),
              [], rule_line, total_line (map2 result_of ts tms), rule_line]"
    unfolding lw by (metis snd_conv)
next
  show "testAsyncOperations w =
     (Inr (js_sub (clock w (Suc (reads w))) (clock w (reads w))),
      w\<lparr>reads := Suc (Suc (reads w)),
        events := events w @ map Created [0..<10000] @ [Joined 10000, Awaited]\<rparr>)"
    by (rule testAsyncOperations_run)
qed

theorem async_measured_once_witness:
  "runBenchmarks_on (map logged_test two_tests) (logged ''Async/Promise'' (fixed_op (Num False 250))) node_host
       \<lparr>world = ([], 0), stdout = [], stderr = []\<rparr> =
     (Inr (), \<lparr>world = ([''first'', ''first'', ''second'', ''second'', ''Async/Promise''], 5),
               stdout = stdout (two_tests_done node_host), stderr = []\<rparr>) \<and>
   [''first'', ''first'', ''second'', ''second'', ''Async/Promise'']
     = [] @ concat (map (\<lambda>t. [test.name t, test.name t]) two_tests) @ [''Async/Promise''] \<and>
   (\<exists>tms lw atm front.
      measurements (map logged_test two_tests) ([], 0) = (tms, None, lw) \<and>
      fixed_op (Num False 250) (snd lw) = (Inr atm, 5) \<and>
      stdout (two_tests_done node_host) = front
        @ [row ''Async/Promise'' (toFixed 2 atm)
             (toFixed 0 (js_div (Num False 10000) (js_div atm (Num False 1000)))),
           [], rule_line, total_line (map2 result_of two_tests tms), rule_line])"
  using async_measured_once [of two_tests "''Async/Promise''" "fixed_op (Num False 250)" node_host
      "\<lparr>world = ([], 0), stdout = [], stderr = []\<rparr>"
      "\<lparr>world = ([''first'', ''first'', ''second'', ''second'', ''Async/Promise''], 5),
        stdout = stdout (two_tests_done node_host), stderr = []\<rparr>"]
    two_tests_logged_run [of node_host]
  by (simp del: toFixed.simps js_div.simps)

text \<open>
  C4, as the program has it. A failing call ends the run at once. When a warm-up or a
  measured call of a synchronous descriptor fails, the output holds the header and the
  rows of the descriptors completed before it, no row for the failing one and nothing
  after it; with operations that record their calls, the last name recorded is the one
  of the failing descriptor (once or twice) and no later descriptor is called. When the
  asynchronous call fails, the output ends with the announcement line. In both cases the
  handler given to \<open>catch\<close> writes the error to the error stream, which settles the
  rejection, and the process ends with status 0, as it does for every run.
\<close>

theorem failure_aborts_run_with_status_zero:
  "(measurements ts (world p) = (tms, Some (Thrown msg), w) \<longrightarrow>
      length tms < length ts \<and>
      main_on ts a h p =
        (0, p\<lparr>world := w, stdout := stdout p @ report_head h @ map2 row_of ts tms,
               stderr := stderr p @ [msg]\<rparr>)) \<and>
   (measurements ts2 (world p2) = (tms2, None, w2) \<longrightarrow> a2 w2 = (Inl (Thrown msg2), w2') \<longrightarrow>
      main_on ts2 a2 h2 p2 =
        (0, p2\<lparr>world := w2', stdout := stdout p2 @ report_head h2 @ map2 row_of ts2 tms2
                  @ [[], ''Running async operations test...''],
                stderr := stderr p2 @ [msg2]\<rparr>)) \<and>
   (measurements (map logged_test ts3) (calls, w3) = (tms3, Some err, lw) \<longrightarrow>
      (\<exists>k. (k = 1 \<or> k = 2) \<and>
         fst lw = calls @ concat (map (\<lambda>t. [test.name t, test.name t]) (take (length tms3) ts3))
           @ replicate k (test.name (ts3 ! length tms3)))) \<and>
   fst (main_on ts4 a4 h4 p4) = 0"
proof (intro conjI impI)
  assume m: "measurements ts (world p) = (tms, Some (Thrown msg), w)"
  then show "length tms < length ts"
    by (rule measurements_failed)
  from m show "main_on ts a h p =
        (0, p\<lparr>world := w, stdout := stdout p @ report_head h @ map2 row_of ts tms,
               stderr := stderr p @ [msg]\<rparr>)"
    by (rule main_on_sync_failure)
next
  assume "measurements ts2 (world p2) = (tms2, None, w2)" and "a2 w2 = (Inl (Thrown msg2), w2')"
  then show "main_on ts2 a2 h2 p2 =
        (0, p2\<lparr>world := w2', stdout := stdout p2 @ report_head h2 @ map2 row_of ts2 tms2
                  @ [[], ''Running async operations test...''],
                stderr := stderr p2 @ [msg2]\<rparr>)"
    by (rule main_on_async_failure)
next
  assume "measurements (map logged_test ts3) (calls, w3) = (tms3, Some err, lw)"
  from logged_calls_failed [OF this]
  show "\<exists>k. (k = 1 \<or> k = 2) \<and>
         fst lw = calls @ concat (map (\<lambda>t. [test.name t, test.name t]) (take (length tms3) ts3))
           @ replicate k (test.name (ts3 ! length tms3))"
    by simp
next
  show "fst (main_on ts4 a4 h4 p4) = 0"
    by (rule main_on_status)
qed

theorem failure_aborts_run_with_status_zero_witness:
  "measurements boom_tests (world fresh) = ([], Some (Thrown ''Error: boom''), 1) \<and>
   length ([] :: jsnum list) < length boom_tests \<and>
   main_on boom_tests (fixed_op (Num False 250)) node_host fresh =
     (0, \<lparr>world = 1, stdout = report_head node_host, stderr = [''Error: boom'']\<rparr>) \<and>
   measurements two_tests (world fresh) = ([Num False 500, Num False 2000], None, 4) \<and>
   failing_op ''Error: async'' 4 = (Inl (Thrown ''Error: async''), 5) \<and>
   main_on two_tests (failing_op ''Error: async'') node_host fresh =
     (0, \<lparr>world = 5,
          stdout = report_head node_host @
            [''first                         500.00 ms             2000 ops/sec'',
             ''second                       2000.00 ms               50 ops/sec'',
             [], ''Running async operations test...''],
          stderr = [''Error: async'']\<rparr>) \<and>
   measurements (map logged_test boom_tests) ([], 0) = ([], Some (Thrown ''Error: boom''), [''boom''], 1) \<and>
   (\<exists>k. (k = 1 \<or> k = 2) \<and>
      [''boom''] = [] @ concat (map (\<lambda>t. [test.name t, test.name t]) (take 0 boom_tests))
        @ replicate k (test.name (boom_tests ! 0))) \<and>
   fst (main_on boom_tests (fixed_op (Num False 250)) node_host fresh) = 0"
proof -
  have m1: "measurements boom_tests (world fresh) = ([], Some (Thrown ''Error: boom''), 1)"
    by (simp add: boom_tests_measurements fresh_def)
  have m2: "measurements two_tests (world fresh) = ([Num False 500, Num False 2000], None, 4)"
    by (simp add: two_tests_measurements fresh_def)
  have a2: "failing_op ''Error: async'' 4 = (Inl (Thrown ''Error: async''), 5)"
    by (simp add: failing_op_def)
  note m3 = boom_tests_logged_measurements
  from failure_aborts_run_with_status_zero [of boom_tests fresh "[]" "''Error: boom''" 1
      "fixed_op (Num False 250)" node_host
      two_tests fresh "[Num False 500, Num False 2000]" 4 "failing_op ''Error: async''"
      "''Error: async''" 5 node_host
      boom_tests "[]" 0 "[]" "Thrown ''Error: boom''" "([''boom''], 1)"
      boom_tests "fixed_op (Num False 250)" node_host fresh] m1 m2 a2 m3
  show ?thesis
    by (simp add: two_tests_rows fresh_def)
qed

text \<open>
  The claim as stated fails: when the first workload throws, the error is written to the
  error stream and the status of the process is 0.
\<close>

theorem failed_run_exits_with_status_zero:
  "measurements boom_tests (world fresh) = ([], Some (Thrown ''Error: boom''), 1) \<and>
   runBenchmarks_on boom_tests (fixed_op (Num False 250)) node_host fresh =
     (Inl (Thrown ''Error: boom''), \<lparr>world = 1, stdout = report_head node_host, stderr = []\<rparr>) \<and>
   main_on boom_tests (fixed_op (Num False 250)) node_host fresh =
     (0, \<lparr>world = 1, stdout = report_head node_host, stderr = [''Error: boom'']\<rparr>)"
proof -
  have m: "measurements boom_tests (world fresh) = ([], Some (Thrown ''Error: boom''), 1)"
    by (simp add: boom_tests_measurements fresh_def)
  have r: "runBenchmarks_on boom_tests (fixed_op (Num False 250)) node_host fresh =
      (Inl (Thrown ''Error: boom''), \<lparr>world = 1, stdout = report_head node_host, stderr = []\<rparr>)"
    using runBenchmarks_on_sync_failure [OF m, of "fixed_op (Num False 250)" node_host]
    by (simp add: fresh_def)
  have e: "main_on boom_tests (fixed_op (Num False 250)) node_host fresh =
      (0, \<lparr>world = 1, stdout = report_head node_host, stderr = [''Error: boom'']\<rparr>)"
    using main_on_sync_failure [OF m, of "fixed_op (Num False 250)" node_host]
    by (simp add: fresh_def)
  from m r e show ?thesis
    by (intro conjI)
qed

text \<open>
  C3, as the program has it. The runner validates no count: which calls are made, what
  they return and whether the run completes are the same whatever counts the
  descriptors declare, so a descriptor with a zero or negative count is run like any
  other. The nine descriptors of the registry declare the positive counts 1000000,
  100000 and 10000. A printed throughput reads \<open>NaN\<close>, \<open>Infinity\<close> or \<open>-Infinity\<close> exactly
  when the double quotient \<open>count / (time / 1000)\<close> is not a finite number.
\<close>

theorem counts_are_not_validated:
  "measurements (map (\<lambda>t. t\<lparr>iterations := c t\<rparr>) ts) w = measurements ts w \<and>
   fst (runBenchmarks_on (map (\<lambda>t. t\<lparr>iterations := c t\<rparr>) ts) a h p) = fst (runBenchmarks_on ts a h p) \<and>
   world (snd (runBenchmarks_on (map (\<lambda>t. t\<lparr>iterations := c t\<rparr>) ts) a h p))
     = world (snd (runBenchmarks_on ts a h p)) \<and>
   map iterations tests =
     [Num False 1000000, Num False 100000, Num False 10000, Num False 1000000, Num False 1000000,
      Num False 100000, Num False 1000000, Num False 10000, Num False 10000] \<and>
   non_finite_text (toFixed 0 (js_div count (js_div tm (Num False 1000))))
     = (case js_div count (js_div tm (Num False 1000)) of Num s m \<Rightarrow> False | _ \<Rightarrow> True)"
proof -
  let ?ts = "map (\<lambda>t. t\<lparr>iterations := c t\<rparr>) ts"
  have m: "measurements ?ts (world p) = measurements ts (world p)"
    by (rule measurements_counts_irrelevant)
  obtain tms r w' where ms: "measurements ts (world p) = (tms, r, w')"
    by (cases "measurements ts (world p)") auto
  have run: "fst (runBenchmarks_on ?ts a h p) = fst (runBenchmarks_on ts a h p) \<and>
      world (snd (runBenchmarks_on ?ts a h p)) = world (snd (runBenchmarks_on ts a h p))"
  proof (cases r)
    case (Some err)
    with ms m show ?thesis
      by (simp add: runBenchmarks_on_sync_failure [of ts p tms err w' a h]
          runBenchmarks_on_sync_failure [of ?ts p tms err w' a h])
  next
    case None
    obtain ra w'' where a: "a w' = (ra, w'')"
      by (cases "a w'") auto
    show ?thesis
    proof (cases ra)
      case (Inl err)
      with ms m None a show ?thesis
        by (simp add: runBenchmarks_on_async_failure [of ts p tms w' a err w'' h]
            runBenchmarks_on_async_failure [of ?ts p tms w' a err w'' h])
    next
      case (Inr atm)
      with ms m None a show ?thesis
        by (simp add: runBenchmarks_on_success [of ts p tms w' a atm w'' h]
            runBenchmarks_on_success [of ?ts p tms w' a atm w'' h])
    qed
  qed
  from run show ?thesis
    by (simp only: measurements_counts_irrelevant registered_counts non_finite_text_toFixed simp_thms)
qed

text \<open>
  The claim as stated fails: a descriptor with the count 0 whose measured time is 0 is
  called, the run completes, and its row shows the throughput \<open>NaN\<close>.
\<close>

theorem zero_count_is_run_and_prints_NaN:
  "runBenchmarks_on zero_tests (fixed_op (Num False 250)) node_host fresh =
     (Inr (), \<lparr>world = 3,
        stdout = report_head node_host @
          [''zero                            0.00 ms              NaN ops/sec'',
           [], ''Running async operations test...'',
           ''Async/Promise                 250.00 ms            40000 ops/sec'',
           [], rule_line, ''  Total Runtime: 0.00 ms'', rule_line],
        stderr = []\<rparr>)"
proof -
  have m: "measurements zero_tests (world fresh) = ([Num False 0], None, 2)"
    by (simp add: zero_tests_def fixed_op_def fresh_def)
  have a: "fixed_op (Num False 250) 2 = (Inr (Num False 250), 3)"
    by (simp add: fixed_op_def)
  have rows: "map2 row_of zero_tests [Num False 0] =
      [''zero                            0.00 ms              NaN ops/sec'']"
    by (simp add: zero_tests_def row_of_def num_ev str_ev)
  have total: "total_line (map2 result_of zero_tests [Num False 0]) = ''  Total Runtime: 0.00 ms''"
    by (simp add: zero_tests_def result_of_def total_line_def total_runtime_def num_ev str_ev)
  show ?thesis
    using runBenchmarks_on_success [where a = "fixed_op (Num False 250)" and h = node_host, OF m a]
    by (simp add: rows total async_row_250 fresh_def)
qed

text \<open>
  C7, as the program has it. Every row of a completed run is
  \<open>name.padEnd(25)\<close>, one space, \<open>time.toFixed(2).padStart(10)\<close>, the text \<open>" ms  "\<close>,
  the throughput \<open>toFixed(0)\<close> under \<open>padStart(15)\<close> and the text \<open>" ops/sec"\<close>. Padding
  adds spaces up to the width and never cuts: the name is extended on the right, the two
  numbers on the left. When the name has at most 25 characters, the time text at most 10
  and the throughput text at most 15, the row has 64 characters and the fields start at
  the columns 0, 26 and 41. Every name of the registry has at most 25 characters. A
  finite time below \<open>10^21\<close> is written with digits, a point and two digits, a finite
  throughput below \<open>10^21\<close> with digits only.
\<close>

theorem row_layout:
  "(runBenchmarks_on ts a h p = (Inr (), p') \<longrightarrow>
      (\<exists>tms atm. length tms = length ts \<and>
         stdout p' = stdout p @ report_head h
           @ map2 (\<lambda>t tm. row (test.name t) (toFixed 2 tm)
                     (toFixed 0 (js_div (iterations t) (js_div tm (Num False 1000))))) ts tms
           @ [[], ''Running async operations test...'',
              row ''Async/Promise'' (toFixed 2 atm)
                (toFixed 0 (js_div (Num False 10000) (js_div atm (Num False 1000)))),
              [], rule_line, total_line (map2 result_of ts tms), rule_line])) \<and>
   row nm tm ops =
     nm @ replicate (25 - length nm) CHR '' '' @ '' ''
       @ replicate (10 - length tm) CHR '' '' @ tm @ '' ms  ''
       @ replicate (15 - length ops) CHR '' '' @ ops @ '' ops/sec'' \<and>
   (length nm \<le> 25 \<longrightarrow> length tm \<le> 10 \<longrightarrow> length ops \<le> 15 \<longrightarrow>
      length (row nm tm ops) = 64 \<and>
      take 25 (row nm tm ops) = padEnd 25 nm \<and>
      take 1 (drop 25 (row nm tm ops)) = '' '' \<and>
      take 10 (drop 26 (row nm tm ops)) = padStart 10 tm \<and>
      take 5 (drop 36 (row nm tm ops)) = '' ms  '' \<and>
      take 15 (drop 41 (row nm tm ops)) = padStart 15 ops \<and>
      drop 56 (row nm tm ops) = '' ops/sec'') \<and>
   list_all (\<lambda>t. length (test.name t) \<le> 25) tests \<and>
   (m < 10 ^ 21 \<longrightarrow>
      (\<exists>ip fp. toFixed 2 (Num False m) = ip @ ''.'' @ fp \<and> ip \<noteq> [] \<and> length fp = 2 \<and>
         list_all is_digit ip \<and> list_all is_digit fp)) \<and>
   (q < 10 ^ 21 \<longrightarrow>
      toFixed 0 (Num False q) \<noteq> [] \<and> list_all is_digit (toFixed 0 (Num False q)))"
proof (intro conjI impI)
  assume "runBenchmarks_on ts a h p = (Inr (), p')"
  then obtain tms w atm where len: "length tms = length ts"
    and p': "p' = p\<lparr>world := world p', stdout := stdout p @ report_head h @ map2 row_of ts tms
               @ [[], ''Running async operations test...'', async_row atm,
                  [], rule_line, total_line (map2 result_of ts tms), rule_line]\<rparr>"
    by (rule completed_run)
  have rows: "map2 row_of ts tms =
      map2 (\<lambda>t tm. row (test.name t) (toFixed 2 tm)
              (toFixed 0 (js_div (iterations t) (js_div tm (Num False 1000))))) ts tms"
    by (simp add: row_of_def del: toFixed.simps js_div.simps)
  have "stdout p' = stdout p @ report_head h
           @ map2 (\<lambda>t tm. row (test.name t) (toFixed 2 tm)
                     (toFixed 0 (js_div (iterations t) (js_div tm (Num False 1000))))) ts tms
           @ [[], ''Running async operations test...'',
              row ''Async/Promise'' (toFixed 2 atm)
                (toFixed 0 (js_div (Num False 10000) (js_div atm (Num False 1000)))),
              [], rule_line, total_line (map2 result_of ts tms), rule_line]"
    by (subst p') (simp add: rows async_row_def del: toFixed.simps js_div.simps)
  with len show "\<exists>tms atm. length tms = length ts \<and>
         stdout p' = stdout p @ report_head h
           @ map2 (\<lambda>t tm. row (test.name t) (toFixed 2 tm)
                     (toFixed 0 (js_div (iterations t) (js_div tm (Num False 1000))))) ts tms
           @ [[], ''Running async operations test...'',
              row ''Async/Promise'' (toFixed 2 atm)
                (toFixed 0 (js_div (Num False 10000) (js_div atm (Num False 1000)))),
              [], rule_line, total_line (map2 result_of ts tms), rule_line]"
    by blast
next
  show "row nm tm ops =
     nm @ replicate (25 - length nm) CHR '' '' @ '' ''
       @ replicate (10 - length tm) CHR '' '' @ tm @ '' ms  ''
       @ replicate (15 - length ops) CHR '' '' @ ops @ '' ops/sec''"
    by (rule row_fields)
next
  show "list_all (\<lambda>t. length (test.name t) \<le> 25) tests"
    by (rule registered_names_fit)
next
  assume "m < 10 ^ 21"
  then show "\<exists>ip fp. toFixed 2 (Num False m) = ip @ ''.'' @ fp \<and> ip \<noteq> [] \<and> length fp = 2 \<and>
         list_all is_digit ip \<and> list_all is_digit fp"
    by (rule toFixed_2_shape)
next
  assume "q < 10 ^ 21"
  then show "toFixed 0 (Num False q) \<noteq> []" and "list_all is_digit (toFixed 0 (Num False q))"
    using toFixed_0_shape [of q] by blast+
qed (use row_columns [of nm tm ops] in blast)+

theorem row_layout_witness:
  "runBenchmarks_on two_tests (fixed_op (Num False 250)) node_host fresh
     = (Inr (), two_tests_done node_host) \<and>
   (\<exists>tms atm. length tms = length two_tests \<and>
      stdout (two_tests_done node_host) = stdout fresh @ report_head node_host
        @ map2 (\<lambda>t tm. row (test.name t) (toFixed 2 tm)
                  (toFixed 0 (js_div (iterations t) (js_div tm (Num False 1000))))) two_tests tms
        @ [[], ''Running async operations test...'',
           row ''Async/Promise'' (toFixed 2 atm)
             (toFixed 0 (js_div (Num False 10000) (js_div atm (Num False 1000)))),
           [], rule_line, total_line (map2 result_of two_tests tms), rule_line]) \<and>
   length ''first'' \<le> 25 \<and> length ''500.00'' \<le> 10 \<and> length ''2000'' \<le> 15 \<and>
   length (row ''first'' ''500.00'' ''2000'') = 64 \<and>
   take 25 (row ''first'' ''500.00'' ''2000'') = padEnd 25 ''first'' \<and>
   take 10 (drop 26 (row ''first'' ''500.00'' ''2000'')) = padStart 10 ''500.00'' \<and>
   take 15 (drop 41 (row ''first'' ''500.00'' ''2000'')) = padStart 15 ''2000'' \<and>
   (500 :: rat) < 10 ^ 21 \<and>
   (\<exists>ip fp. toFixed 2 (Num False 500) = ip @ ''.'' @ fp \<and> ip \<noteq> [] \<and> length fp = 2 \<and>
      list_all is_digit ip \<and> list_all is_digit fp) \<and>
   (2000 :: rat) < 10 ^ 21 \<and>
   toFixed 0 (Num False 2000) \<noteq> [] \<and> list_all is_digit (toFixed 0 (Num False 2000))"
proof -
  have l: "length ''first'' \<le> 25" "length ''500.00'' \<le> 10" "length ''2000'' \<le> 15"
    by simp_all
  have b: "(500 :: rat) < 10 ^ 21" "(2000 :: rat) < 10 ^ 21"
    by simp_all
  from row_layout [of two_tests "fixed_op (Num False 250)" node_host fresh "two_tests_done node_host"
      "''first''" "''500.00''" "''2000''" 500 2000] two_tests_run [of node_host] l b
  show ?thesis
    by blast
qed

text \<open>
  The claim as stated fails: a name of 26 characters is printed in full, in a row of 65
  characters; and a row with a short name has 64 characters, one more than the fields
  and texts the claim lists.
\<close>

theorem long_name_is_not_truncated:
  "row ''abcdefghijklmnopqrstuvwxyz'' (toFixed 2 (Num False 1)) (toFixed 0 (Num False 5)) =
     ''abcdefghijklmnopqrstuvwxyz       1.00 ms                5 ops/sec'' \<and>
   length ''abcdefghijklmnopqrstuvwxyz       1.00 ms                5 ops/sec'' = 65 \<and>
   row ''first'' (toFixed 2 (Num False 500))
       (toFixed 0 (js_div (Num False 1000) (js_div (Num False 500) (Num False 1000)))) =
     ''first                         500.00 ms             2000 ops/sec'' \<and>
   length ''first                         500.00 ms             2000 ops/sec'' = 64"
  by (simp add: toFixed_2_one toFixed_0_five row_long_name toFixed_2_500 throughput_1000_500 row_first
      del: toFixed.simps js_div.simps)

end
